theory Spec2Isabelle
  imports Complex_Main "HOL-Library.Sublist" "HOL-Library.Product_Lexorder"
begin

section \<open>Python values and library operations\<close>

text \<open>
  Python \<open>str\<close> values are modelled as \<open>string\<close>, the UTF-8 bytes of the text; a keyword
  outside ASCII is written as its bytes.  The substring test \<open>k in s\<close> is \<^const>\<open>sublist\<close>
  (a contiguous run of \<open>s\<close>), which on well-formed UTF-8 agrees with the test on code points.

  The operations below belong to the Python standard library, to \<open>hashlib\<close>, \<open>urllib\<close> and
  \<open>rapidfuzz\<close>, not to the repository.  They are parameters of the model: every theorem holds
  for whatever these functions compute.
\<close>

record pylib =
  str_strip :: "string \<Rightarrow> string"  \<comment> \<open>\<open>s.strip()\<close>\<close>
  str_lower :: "string \<Rightarrow> string"  \<comment> \<open>\<open>s.lower()\<close>\<close>
  urlsplit_netloc :: "string \<Rightarrow> string option"
    \<comment> \<open>\<open>urlsplit(url).netloc\<close>; \<open>None\<close> when \<open>urlsplit\<close> raises\<close>
  md5_int :: "string \<Rightarrow> nat"  \<comment> \<open>\<open>int(hashlib.md5(b).hexdigest(), 16)\<close>\<close>
  token_set_ratio :: "string \<Rightarrow> string \<Rightarrow> real"  \<comment> \<open>\<open>fuzz.token_set_ratio(a, b)\<close>\<close>

text \<open>\<open>x or ""\<close> for a value that is a string or \<open>None\<close>.\<close>

definition or_empty :: "string option \<Rightarrow> string" where
  "or_empty x = (case x of None \<Rightarrow> [] | Some s \<Rightarrow> s)"

text \<open>\<open>str(n)\<close> for an integer.\<close>

fun str_nat :: "nat \<Rightarrow> string" where
  "str_nat n = (if n < 10 then [''0123456789'' ! n]
                else str_nat (n div 10) @ [''0123456789'' ! (n mod 10)])"

definition str_int :: "int \<Rightarrow> string" where
  "str_int i = (if i < 0 then ''-'' @ str_nat (nat (- i)) else str_nat (nat i))"

text \<open>The slice \<open>xs[:n]\<close>: a negative \<open>n\<close> counts from the end.\<close>

definition slice_to :: "'a list \<Rightarrow> int \<Rightarrow> 'a list" where
  "slice_to xs n = (if 0 \<le> n then take (nat n) xs else take (length xs - nat (- n)) xs)"

type_synonym timestamp = int  \<comment> \<open>microseconds since the epoch\<close>

definition hour :: int where "hour = 3600000000"
definition day :: int where "day = 24 * hour"


section \<open>Link selector (\<open>ranker/news.py\<close>)\<close>

definition OFFICIAL_DOMAINS :: "string set" where
  "OFFICIAL_DOMAINS = {''openai.com'', ''ai.googleblog.com'', ''deepmind.google'',
     ''research.google'', ''huggingface.co'', ''blogs.microsoft.com'', ''blogs.nvidia.com'',
     ''aws.amazon.com'', ''ai.meta.com'', ''anthropic.com'', ''stability.ai''}"

definition CODE_DOMAINS :: "string set" where
  "CODE_DOMAINS = {''github.com'', ''gitlab.com'', ''bitbucket.org''}"

definition PAPER_DOMAINS :: "string set" where
  "PAPER_DOMAINS = {''arxiv.org'', ''openreview.net'', ''papers.nips.cc'', ''aclanthology.org''}"

definition AUTHORITY_DOMAINS :: "string set" where
  "AUTHORITY_DOMAINS = {''nature.com'', ''science.org'', ''sciencedirect.com'', ''ieee.org'',
     ''acm.org''}"

definition COMMUNITY_DOMAINS :: "string set" where
  "COMMUNITY_DOMAINS = {''news.ycombinator.com'', ''reddit.com'', ''lobste.rs'', ''medium.com'',
     ''towardsdatascience.com''}"

definition normalize_text :: "pylib \<Rightarrow> string option \<Rightarrow> string" where
  "normalize_text L text = str_lower L (str_strip L (or_empty text))"

definition get_domain :: "pylib \<Rightarrow> string \<Rightarrow> string" where
  "get_domain L url =
     (if url = [] then []
      else case urlsplit_netloc L url of
             None \<Rightarrow> []
           | Some netloc \<Rightarrow> if netloc \<noteq> [] then str_lower L netloc else [])"

definition stable_hash :: "pylib \<Rightarrow> string \<Rightarrow> string \<Rightarrow> nat" where
  "stable_hash L text seed = md5_int L (seed @ ''|'' @ text)"

definition link_priority :: "string \<Rightarrow> int" where
  "link_priority domain =
     (if domain \<in> OFFICIAL_DOMAINS then 4
      else if domain \<in> CODE_DOMAINS \<or> domain \<in> PAPER_DOMAINS then 3
      else if domain \<in> AUTHORITY_DOMAINS then 2
      else if domain \<in> COMMUNITY_DOMAINS then 1
      else 1)"

text \<open>
  A candidate is the dictionary \<open>{"url": ..., "domain": ...}\<close>; the loop over \<open>filtered\<close>
  adds the keys \<open>"priority"\<close> and \<open>"tie"\<close> to it.
\<close>

record candidate =
  url :: string
  domain :: string

record ranked = candidate +
  priority :: int
  tie :: nat

text \<open>The first loop of \<open>_select_evidence_links\<close>: one link per domain, until \<open>min_count\<close>.\<close>

fun evidence_by_domain ::
  "int \<Rightarrow> 'a candidate_scheme list \<Rightarrow> string list \<times> string set \<Rightarrow> string list \<times> string set"
where
  "evidence_by_domain min_count [] (evidence, seen_domains) = (evidence, seen_domains)"
| "evidence_by_domain min_count (c # cs) (evidence, seen_domains) =
     (if url c \<in> set evidence then evidence_by_domain min_count cs (evidence, seen_domains)
      else if domain c \<in> seen_domains
        then evidence_by_domain min_count cs (evidence, seen_domains)
      else let evidence' = evidence @ [url c];
               seen_domains' = insert (domain c) seen_domains
           in if int (length evidence') \<ge> min_count then (evidence', seen_domains')
              else evidence_by_domain min_count cs (evidence', seen_domains'))"

text \<open>The second loop: fill up with the remaining links in order, whatever their domain.\<close>

fun evidence_fill :: "int \<Rightarrow> 'a candidate_scheme list \<Rightarrow> string list \<Rightarrow> string list" where
  "evidence_fill min_count [] evidence = evidence"
| "evidence_fill min_count (c # cs) evidence =
     (if url c \<in> set evidence then evidence_fill min_count cs evidence
      else let evidence' = evidence @ [url c]
           in if int (length evidence') \<ge> min_count then evidence'
              else evidence_fill min_count cs evidence')"

definition select_evidence_links :: "'a candidate_scheme list \<Rightarrow> int \<Rightarrow> int \<Rightarrow> string list" where
  "select_evidence_links candidates min_count max_count =
     (let (evidence, seen_domains) = evidence_by_domain min_count candidates ([], {});
          evidence = (if int (length evidence) < min_count
                      then evidence_fill min_count candidates evidence else evidence)
      in slice_to evidence max_count)"

text \<open>An item handed to the selector: \<open>item.get("url")\<close> and \<open>item.get("domain")\<close>.\<close>

record link_item =
  li_url :: "string option"
  li_domain :: "string option"

fun collect_candidates :: "pylib \<Rightarrow> link_item list \<Rightarrow> candidate list" where
  "collect_candidates L [] = []"
| "collect_candidates L (item # items) =
     (let u = str_strip L (or_empty (li_url item)) in
      if u = [] then collect_candidates L items
      else let g = get_domain L u;
               d = (if g \<noteq> [] then g else str_lower L (str_strip L (or_empty (li_domain item))))
           in if d = [] then collect_candidates L items
              else \<lparr>url = u, domain = d\<rparr> # collect_candidates L items)"

definition rank_candidate :: "pylib \<Rightarrow> string \<Rightarrow> candidate \<Rightarrow> ranked" where
  "rank_candidate L seed c =
     \<lparr>url = url c, domain = domain c,
      priority = link_priority (domain c), tie = stable_hash L (url c) seed\<rparr>"

definition sort_key_of :: "ranked \<Rightarrow> int \<times> nat" where
  "sort_key_of c = (- priority c, tie c)"

definition non_arxiv_of :: "candidate list \<Rightarrow> candidate list" where
  "non_arxiv_of candidates = filter (\<lambda>c. domain c \<noteq> ''arxiv.org'') candidates"

definition ordered_candidates :: "pylib \<Rightarrow> int \<Rightarrow> candidate list \<Rightarrow> ranked list" where
  "ordered_candidates L cluster_id candidates =
     (let non_arxiv = non_arxiv_of candidates;
          filtered = (if non_arxiv \<noteq> [] then non_arxiv else candidates);
          seed = str_int cluster_id
      in sort_key sort_key_of (map (rank_candidate L seed) filtered))"

definition priority_label :: "int \<Rightarrow> string" where
  "priority_label p =
     (if p = 4 then ''official'' else if p = 3 then ''code_or_paper''
      else if p = 2 then ''authority'' else if p = 1 then ''community'' else ''community'')"

record link_debug =
  candidate_count :: nat
  filtered_arxiv :: bool
  primary_domain :: "string option"    \<comment> \<open>\<open>None\<close>: the key is absent\<close>
  primary_priority :: "string option"

record link_selection =
  primary_link :: string
  evidence_links :: "string list"
  debug :: link_debug

definition select_cluster_links :: "pylib \<Rightarrow> int \<Rightarrow> link_item list \<Rightarrow> link_selection" where
  "select_cluster_links L cluster_id items =
     (let candidates = collect_candidates L items in
      if candidates = [] then
        \<lparr>primary_link = [], evidence_links = [],
         debug = \<lparr>candidate_count = 0, filtered_arxiv = False,
                  primary_domain = None, primary_priority = None\<rparr>\<rparr>
      else
        let non_arxiv = non_arxiv_of candidates;
            ordered = ordered_candidates L cluster_id candidates;
            primary = (case ordered of [] \<Rightarrow> [] | c # _ \<Rightarrow> url c);
            evidence = select_evidence_links ordered 3 5;
            primary_domain = (case ordered of [] \<Rightarrow> [] | c # _ \<Rightarrow> domain c);
            primary_priority = (case ordered of [] \<Rightarrow> 0 | c # _ \<Rightarrow> priority c)
        in \<lparr>primary_link = primary, evidence_links = evidence,
            debug = \<lparr>candidate_count = length candidates,
                     filtered_arxiv = (non_arxiv \<noteq> []),
                     primary_domain = Some primary_domain,
                     primary_priority = Some (priority_label primary_priority)\<rparr>\<rparr>)"


section \<open>Signal scorer (\<open>ranker/news.py\<close>)\<close>

definition VALUE_SIGNALS :: "(string \<times> real \<times> string list) list" where
  "VALUE_SIGNALS = [
    (''monetization'', (3.5, [
       [CHR 0xE5, CHR 0x8F, CHR 0x98, CHR 0xE7, CHR 0x8E, CHR 0xB0],  \<comment> \<open>U+53D8 U+73B0\<close>
       [CHR 0xE8, CHR 0xB5, CHR 0x9A, CHR 0xE9, CHR 0x92, CHR 0xB1],  \<comment> \<open>U+8D5A U+94B1\<close>
       [CHR 0xE7, CHR 0x9B, CHR 0x88, CHR 0xE5, CHR 0x88, CHR 0xA9],  \<comment> \<open>U+76C8 U+5229\<close>
       [CHR 0xE8, CHR 0x90, CHR 0xA5, CHR 0xE6, CHR 0x94, CHR 0xB6],  \<comment> \<open>U+8425 U+6536\<close>
       [CHR 0xE8, CHR 0xAE, CHR 0xA2, CHR 0xE9, CHR 0x98, CHR 0x85],  \<comment> \<open>U+8BA2 U+9605\<close>
       [CHR 0xE4, CHR 0xBB, CHR 0x98, CHR 0xE8, CHR 0xB4, CHR 0xB9],  \<comment> \<open>U+4ED8 U+8D39\<close>
       [CHR 0xE4, CHR 0xBB, CHR 0xB7, CHR 0xE6, CHR 0xA0, CHR 0xBC],  \<comment> \<open>U+4EF7 U+683C\<close>
       ''pricing'',
       ''revenue'',
       ''monetiz'',
       ''roi''])),
    (''productivity'', (3.0, [
       [CHR 0xE6, CHR 0x95, CHR 0x88, CHR 0xE7, CHR 0x8E, CHR 0x87],  \<comment> \<open>U+6548 U+7387\<close>
       [CHR 0xE8, CHR 0x87, CHR 0xAA, CHR 0xE5, CHR 0x8A, CHR 0xA8, CHR 0xE5, CHR 0x8C, CHR 0x96],  \<comment> \<open>U+81EA U+52A8 U+5316\<close>
       ''workflow'',
       ''agent'',
       ''copilot'',
       [CHR 0xE8, CHR 0x8A, CHR 0x82, CHR 0xE7, CHR 0x9C, CHR 0x81, CHR 0xE6, CHR 0x97, CHR 0xB6, CHR 0xE9, CHR 0x97, CHR 0xB4],  \<comment> \<open>U+8282 U+7701 U+65F6 U+95F4\<close>
       [CHR 0xE9, CHR 0x99, CHR 0x8D, CHR 0xE6, CHR 0x9C, CHR 0xAC],  \<comment> \<open>U+964D U+672C\<close>
       [CHR 0xE6, CHR 0x8F, CHR 0x90, CHR 0xE6, CHR 0x95, CHR 0x88],  \<comment> \<open>U+63D0 U+6548\<close>
       ''automation''])),
    (''learning'', (2.5, [
       [CHR 0xE5, CHR 0xAD, CHR 0xA6, CHR 0xE4, CHR 0xB9, CHR 0xA0],  \<comment> \<open>U+5B66 U+4E60\<close>
       [CHR 0xE6, CHR 0x95, CHR 0x99, CHR 0xE7, CHR 0xA8, CHR 0x8B],  \<comment> \<open>U+6559 U+7A0B\<close>
       [CHR 0xE8, CHR 0xAF, CHR 0xBE, CHR 0xE7, CHR 0xA8, CHR 0x8B],  \<comment> \<open>U+8BFE U+7A0B\<close>
       [CHR 0xE6, CHR 0x8C, CHR 0x87, CHR 0xE5, CHR 0x8D, CHR 0x97],  \<comment> \<open>U+6307 U+5357\<close>
       [CHR 0xE6, CHR 0x95, CHR 0x99, CHR 0xE5, CHR 0xAD, CHR 0xA6],  \<comment> \<open>U+6559 U+5B66\<close>
       ''education'',
       ''guide'',
       ''tutorial'',
       ''course''])),
    (''consumer_value'', (2.5, [
       [CHR 0xE5, CHR 0xB7, CHR 0xA5, CHR 0xE5, CHR 0x85, CHR 0xB7],  \<comment> \<open>U+5DE5 U+5177\<close>
       ''app'',
       [CHR 0xE5, CHR 0xBA, CHR 0x94, CHR 0xE7, CHR 0x94, CHR 0xA8],  \<comment> \<open>U+5E94 U+7528\<close>
       [CHR 0xE6, CHR 0x8F, CHR 0x92, CHR 0xE4, CHR 0xBB, CHR 0xB6],  \<comment> \<open>U+63D2 U+4EF6\<close>
       [CHR 0xE4, CHR 0xB8, CHR 0xAA, CHR 0xE4, CHR 0xBA, CHR 0xBA],  \<comment> \<open>U+4E2A U+4EBA\<close>
       [CHR 0xE5, CHR 0xAE, CHR 0xB6, CHR 0xE5, CHR 0xBA, CHR 0xAD],  \<comment> \<open>U+5BB6 U+5EAD\<close>
       [CHR 0xE7, CHR 0x94, CHR 0x9F, CHR 0xE6, CHR 0xB4, CHR 0xBB],  \<comment> \<open>U+751F U+6D3B\<close>
       [CHR 0xE4, CHR 0xBD, CHR 0x93, CHR 0xE9, CHR 0xAA, CHR 0x8C],  \<comment> \<open>U+4F53 U+9A8C\<close>
       ''product'',
       ''tool'',
       ''assistant'',
       [CHR 0xE5, CHR 0xBC, CHR 0x80, CHR 0xE6, CHR 0xBA, CHR 0x90],  \<comment> \<open>U+5F00 U+6E90\<close>
       ''open-source'',
       ''open source'',
       [CHR 0xE5, CHR 0x85, CHR 0x8D, CHR 0xE8, CHR 0xB4, CHR 0xB9],  \<comment> \<open>U+514D U+8D39\<close>
       ''free''])),
    (''safety_compliance'', (2.0, [
       [CHR 0xE5, CHR 0xAE, CHR 0x89, CHR 0xE5, CHR 0x85, CHR 0xA8],  \<comment> \<open>U+5B89 U+5168\<close>
       [CHR 0xE9, CHR 0x9A, CHR 0x90, CHR 0xE7, CHR 0xA7, CHR 0x81],  \<comment> \<open>U+9690 U+79C1\<close>
       [CHR 0xE5, CHR 0x90, CHR 0x88, CHR 0xE8, CHR 0xA7, CHR 0x84],  \<comment> \<open>U+5408 U+89C4\<close>
       ''security'',
       ''privacy'',
       ''compliance'',
       [CHR 0xE9, CHR 0xA3, CHR 0x8E, CHR 0xE9, CHR 0x99, CHR 0xA9],  \<comment> \<open>U+98CE U+9669\<close>
       [CHR 0xE5, CHR 0xAE, CHR 0xA1, CHR 0xE8, CHR 0xAE, CHR 0xA1]  \<comment> \<open>U+5BA1 U+8BA1\<close>])),
    (''business_enablement'', (2.0, [
       [CHR 0xE5, CHR 0x95, CHR 0x86, CHR 0xE4, CHR 0xB8, CHR 0x9A],  \<comment> \<open>U+5546 U+4E1A\<close>
       [CHR 0xE5, CHR 0x88, CHR 0x9B, CHR 0xE4, CHR 0xB8, CHR 0x9A],  \<comment> \<open>U+521B U+4E1A\<close>
       [CHR 0xE5, CHR 0xAE, CHR 0xA2, CHR 0xE6, CHR 0x88, CHR 0xB7],  \<comment> \<open>U+5BA2 U+6237\<close>
       [CHR 0xE4, CHR 0xBC, CHR 0x81, CHR 0xE4, CHR 0xB8, CHR 0x9A],  \<comment> \<open>U+4F01 U+4E1A\<close>
       ''b2b'',
       ''go-to-market'',
       ''gtm'',
       ''growth'']))]"

definition signal_fires :: "string \<Rightarrow> string list \<Rightarrow> bool" where
  "signal_fires normalized keywords = list_ex (\<lambda>k. sublist k normalized) keywords"

definition value_score :: "pylib \<Rightarrow> string option \<Rightarrow> real" where
  "value_score L text =
     (let normalized = normalize_text L text in
      fold (\<lambda>(key, (weight, keywords)) score.
              if signal_fires normalized keywords then score + weight else score)
           VALUE_SIGNALS 0)"

definition value_signals :: "pylib \<Rightarrow> string option \<Rightarrow> string list" where
  "value_signals L text =
     (let normalized = normalize_text L text in
      fold (\<lambda>(key, (weight, keywords)) signals.
              if signal_fires normalized keywords then signals @ [key] else signals)
           VALUE_SIGNALS [])"

text \<open>\<open>VALUE_SIGNALS[key][0]\<close>, the weight of a category.\<close>

definition signal_weight :: "string \<Rightarrow> real" where
  "signal_weight key = (case map_of VALUE_SIGNALS key of None \<Rightarrow> 0 | Some (weight, keywords) \<Rightarrow> weight)"


section \<open>The persisted store\<close>

text \<open>
  The tables the ranker reads and writes, with the columns its queries name.  A nullable
  column is an \<open>option\<close>; \<open>NOW()\<close> is a parameter of each operation (one value per
  transaction), and so is the reading of the Python clock.
\<close>

record cluster_meta =
  meta_value_signals :: "string list"
  meta_value_score :: real
  meta_source_count :: nat
  meta_source_quality :: string
  meta_item_count :: nat
  meta_freshness_score :: real
  meta_feedback_score :: real
  meta_feedback_counts :: "(string \<times> nat) list"

record cluster_row =
  cl_id :: int
  cl_title :: string
  cl_first_seen_at :: "timestamp option"
  cl_last_seen_at :: "timestamp option"
  cl_score :: real
  cl_kind :: string
  cl_item_count :: "int option"
  cl_meta :: "cluster_meta option"

record item_row =
  it_id :: int
  it_title :: string
  it_url :: "string option"
  it_domain :: "string option"
  it_source :: "string option"
  it_summary :: "string option"
  it_published_at :: "timestamp option"
  it_fetched_at :: "timestamp option"
  it_cluster_id :: "int option"

record feedback_row =
  fb_topic_kind :: "string option"
  fb_topic_ref_id :: "int option"
  fb_label :: string
  fb_created_at :: timestamp

record brief_row =
  br_kind :: string
  br_ref_id :: "int option"
  br_created_at :: timestamp

record repo_row =
  rp_id :: int
  rp_full_name :: string
  rp_url :: string
  rp_description :: "string option"
  rp_stars :: int
  rp_forks :: int
  rp_open_issues :: int
  rp_last_pushed_at :: timestamp
  rp_language :: "string option"

record snapshot_row =
  sn_repo_id :: int
  sn_stars :: int
  sn_forks :: int
  sn_open_issues :: int
  sn_captured_at :: timestamp

record database =
  clusters :: "cluster_row list"
  clusters_id_seq :: int  \<comment> \<open>the id the next \<open>INSERT INTO clusters\<close> returns\<close>
  items :: "item_row list"
  user_feedback :: "feedback_row list"
  briefs :: "brief_row list"
  repos :: "repo_row list"
  repo_snapshots :: "snapshot_row list"

text \<open>\<open>COALESCE(a, b)\<close>, and \<open>col > NOW() - interval\<close> on a nullable column.\<close>

definition coalesce :: "'a option \<Rightarrow> 'a option \<Rightarrow> 'a option" where
  "coalesce a b = (case a of None \<Rightarrow> b | Some x \<Rightarrow> Some x)"

definition newer_than :: "timestamp option \<Rightarrow> timestamp \<Rightarrow> bool" where
  "newer_than col bound = (case col of None \<Rightarrow> False | Some t \<Rightarrow> t > bound)"

definition it_ts :: "item_row \<Rightarrow> timestamp option" where
  "it_ts i = coalesce (it_published_at i) (it_fetched_at i)"

definition it_src :: "item_row \<Rightarrow> string option" where
  "it_src i = coalesce (it_domain i) (it_source i)"

text \<open>
  \<open>SELECT label, COUNT(*) ... GROUP BY label\<close> over the feedback of the trailing 30 days for
  one topic, and the score both scorers derive from the resulting dictionary.
\<close>

definition feedback_rows :: "database \<Rightarrow> timestamp \<Rightarrow> string \<Rightarrow> int \<Rightarrow> feedback_row list" where
  "feedback_rows db now kind ref_id =
     filter (\<lambda>f. fb_topic_kind f = Some kind \<and> fb_topic_ref_id f = Some ref_id
                 \<and> fb_created_at f > now - 30 * day) (user_feedback db)"

definition feedback_counts_query ::
  "database \<Rightarrow> timestamp \<Rightarrow> string \<Rightarrow> int \<Rightarrow> (string \<times> nat) list" where
  "feedback_counts_query db now kind ref_id =
     (let labels = map fb_label (feedback_rows db now kind ref_id)
      in map (\<lambda>l. (l, count_list labels l)) (remdups labels))"

definition dict_get :: "(string \<times> nat) list \<Rightarrow> string \<Rightarrow> nat \<Rightarrow> nat" where
  "dict_get d k dflt = (case map_of d k of None \<Rightarrow> dflt | Some v \<Rightarrow> v)"

definition feedback_score_of :: "(string \<times> nat) list \<Rightarrow> real" where
  "feedback_score_of feedback_counts =
     real (dict_get feedback_counts ''useful'' 0) * 2.0
     - real (dict_get feedback_counts ''useless'' 0) * 2.0
     - real (dict_get feedback_counts ''skip'' 0) * 5.0"


section \<open>Cluster assigner (\<open>cluster_news\<close>)\<close>

definition SIMILARITY_THRESHOLD :: real where
  "SIMILARITY_THRESHOLD = 70.0"

text \<open>\<open>_window_hours\<close>; \<open>None\<close> stands for a value \<open>int()\<close> rejects.\<close>

definition window_hours :: "int option \<Rightarrow> int" where
  "window_hours hours = max (case hours of None \<Rightarrow> 72 | Some h \<Rightarrow> h) 6"

record active_cluster =
  ac_id :: int
  ac_title :: string

record pending_item =
  pi_id :: int
  pi_title :: string
  pi_source :: "string option"
  pi_published_at :: timestamp

definition select_active_clusters :: "database \<Rightarrow> timestamp \<Rightarrow> int \<Rightarrow> active_cluster list" where
  "select_active_clusters db now w =
     map (\<lambda>r. \<lparr>ac_id = cl_id r, ac_title = cl_title r\<rparr>)
       (filter (\<lambda>r. newer_than (cl_last_seen_at r) (now - w * hour)) (clusters db))"

text \<open>The unclustered items of the window, \<open>ORDER BY ts DESC\<close> (equal timestamps keep the
  table's order).\<close>

definition select_unclustered_items :: "database \<Rightarrow> timestamp \<Rightarrow> int \<Rightarrow> pending_item list" where
  "select_unclustered_items db now w =
     sort_key (\<lambda>p. - pi_published_at p)
       (List.map_filter
          (\<lambda>i. case it_ts i of
                  None \<Rightarrow> None
                | Some ts \<Rightarrow>
                    if it_cluster_id i = None \<and> ts > now - w * hour
                    then Some \<lparr>pi_id = it_id i, pi_title = it_title i,
                               pi_source = it_src i, pi_published_at = ts\<rparr>
                    else None)
          (items db))"

text \<open>The inner loop: the first cluster with the strictly highest score above 0.\<close>

fun best_match_scan ::
  "pylib \<Rightarrow> string \<Rightarrow> active_cluster list \<Rightarrow> active_cluster option \<times> real
     \<Rightarrow> active_cluster option \<times> real"
where
  "best_match_scan L title [] (best_match, best_score) = (best_match, best_score)"
| "best_match_scan L title (cluster # rest) (best_match, best_score) =
     (let score = token_set_ratio L title (ac_title cluster) in
      if score > best_score then best_match_scan L title rest (Some cluster, score)
      else best_match_scan L title rest (best_match, best_score))"

definition set_item_cluster :: "int \<Rightarrow> int \<Rightarrow> database \<Rightarrow> database" where
  \<comment> \<open>\<open>UPDATE items SET cluster_id = cid WHERE id = iid\<close>\<close>
  "set_item_cluster cid iid db =
     db\<lparr>items := map (\<lambda>i. if it_id i = iid then i\<lparr>it_cluster_id := Some cid\<rparr> else i) (items db)\<rparr>"

definition greatest :: "timestamp option \<Rightarrow> timestamp \<Rightarrow> timestamp" where
  "greatest a b = (case a of None \<Rightarrow> b | Some t \<Rightarrow> max t b)"

definition touch_cluster :: "int \<Rightarrow> timestamp \<Rightarrow> database \<Rightarrow> database" where
  \<comment> \<open>\<open>UPDATE clusters SET last_seen_at = GREATEST(last_seen_at, ts) WHERE id = cid\<close>\<close>
  "touch_cluster cid ts db =
     db\<lparr>clusters := map (\<lambda>r. if cl_id r = cid
                               then r\<lparr>cl_last_seen_at := Some (greatest (cl_last_seen_at r) ts)\<rparr>
                               else r) (clusters db)\<rparr>"

definition insert_cluster :: "string \<Rightarrow> timestamp \<Rightarrow> database \<Rightarrow> int \<times> database" where
  \<comment> \<open>\<open>INSERT INTO clusters (title, first_seen_at, last_seen_at, score, kind) ... RETURNING id\<close>\<close>
  "insert_cluster title ts db =
     (let new_cid = clusters_id_seq db;
          row = \<lparr>cl_id = new_cid, cl_title = title, cl_first_seen_at = Some ts,
                 cl_last_seen_at = Some ts, cl_score = 0, cl_kind = ''news'',
                 cl_item_count = None, cl_meta = None\<rparr>
      in (new_cid, db\<lparr>clusters := clusters db @ [row], clusters_id_seq := new_cid + 1\<rparr>))"

definition assign_item ::
  "pylib \<Rightarrow> real \<Rightarrow> pending_item \<Rightarrow> database \<times> active_cluster list
     \<Rightarrow> database \<times> active_cluster list"
where
  "assign_item L similarity_threshold item st =
     (let (db, active_clusters) = st;
          (best_match, best_score) =
             best_match_scan L (pi_title item) active_clusters (None, 0)
      in if best_match \<noteq> None \<and> best_score \<ge> similarity_threshold then
           (touch_cluster (ac_id (the best_match)) (pi_published_at item)
              (set_item_cluster (ac_id (the best_match)) (pi_id item) db),
            active_clusters)
         else
           let (new_cid, db') = insert_cluster (pi_title item) (pi_published_at item) db
           in (set_item_cluster new_cid (pi_id item) db',
               active_clusters @ [\<lparr>ac_id = new_cid, ac_title = pi_title item\<rparr>]))"

text \<open>The closing \<open>UPDATE clusters ... FROM (SELECT cluster_id, COUNT(*), MAX(ts) ...)\<close>.\<close>

definition max_ts :: "timestamp option list \<Rightarrow> timestamp option" where
  "max_ts xs = fold (\<lambda>x acc. case x of None \<Rightarrow> acc
                                | Some t \<Rightarrow> Some (greatest acc t)) xs None"

definition refresh_clusters :: "timestamp \<Rightarrow> int \<Rightarrow> database \<Rightarrow> database" where
  "refresh_clusters now w db =
     db\<lparr>clusters :=
          map (\<lambda>r. let members = filter (\<lambda>i. it_cluster_id i = Some (cl_id r)) (items db)
                   in if members \<noteq> [] \<and> newer_than (cl_last_seen_at r) (now - w * hour)
                      then r\<lparr>cl_item_count := Some (int (length members)),
                             cl_last_seen_at := max_ts (map it_ts members)\<rparr>
                      else r)
              (clusters db)\<rparr>"

definition cluster_news :: "pylib \<Rightarrow> timestamp \<Rightarrow> int \<Rightarrow> real \<Rightarrow> database \<Rightarrow> database" where
  "cluster_news L now hours similarity_threshold db =
     (let w = window_hours (Some hours);
          active_clusters = select_active_clusters db now w;
          pending = select_unclustered_items db now w;
          (db', active') = fold (assign_item L similarity_threshold) pending (db, active_clusters)
      in refresh_clusters now w db')"


section \<open>Cluster scorer (\<open>score_clusters\<close>)\<close>

text \<open>\<open>" ".join(parts)\<close>.\<close>

fun join_space :: "string list \<Rightarrow> string" where
  "join_space [] = []"
| "join_space [x] = x"
| "join_space (x # y # ys) = x @ '' '' @ join_space (y # ys)"

definition hours_since_of :: "timestamp \<Rightarrow> timestamp \<Rightarrow> real" where
  \<comment> \<open>\<open>max(0.0, (now - last_seen_at).total_seconds() / 3600.0)\<close>\<close>
  "hours_since_of now last_seen_at = max 0 (real_of_int (now - last_seen_at) / 1000000 / 3600)"

definition freshness_score_of :: "int \<Rightarrow> real \<Rightarrow> real" where
  \<comment> \<open>\<open>max(0.0, (window_hours - hours_since) / window_hours)\<close>\<close>
  "freshness_score_of w hours_since = max 0 ((real_of_int w - hours_since) / real_of_int w)"

definition cluster_members :: "database \<Rightarrow> int \<Rightarrow> item_row list" where
  "cluster_members db cid = filter (\<lambda>i. it_cluster_id i = Some cid) (items db)"

definition cluster_sources :: "item_row list \<Rightarrow> string set" where
  \<comment> \<open>\<open>set(i[2] for i in items if i[2])\<close>\<close>
  "cluster_sources members =
     set (List.map_filter (\<lambda>i. case it_src i of None \<Rightarrow> None
                                | Some s \<Rightarrow> if s \<noteq> [] then Some s else None) members)"

definition cluster_text_blob :: "item_row list \<Rightarrow> string" where
  "cluster_text_blob members =
     join_space (map (\<lambda>i. it_title i @ '' '' @ or_empty (it_summary i)) members)"

definition cluster_freshness :: "(int \<Rightarrow> timestamp) \<Rightarrow> int \<Rightarrow> cluster_row \<Rightarrow> real" where
  "cluster_freshness wall_clock w c =
     (let now = wall_clock (cl_id c);
          last_seen_at = (case cl_last_seen_at c of Some t \<Rightarrow> t
                          | None \<Rightarrow> (case cl_first_seen_at c of Some t \<Rightarrow> t | None \<Rightarrow> now));
          hours_since = hours_since_of now last_seen_at
      in freshness_score_of w hours_since)"

definition set_cluster_score :: "int \<Rightarrow> real \<Rightarrow> cluster_meta \<Rightarrow> database \<Rightarrow> database" where
  \<comment> \<open>\<open>UPDATE clusters SET score = s, meta = m WHERE id = cid\<close>\<close>
  "set_cluster_score cid s m db =
     db\<lparr>clusters := map (\<lambda>r. if cl_id r = cid then r\<lparr>cl_score := s, cl_meta := Some m\<rparr> else r)
                        (clusters db)\<rparr>"

text \<open>The body of the loop over the clusters of the window; \<open>c\<close> is the row as first read.\<close>

definition score_cluster ::
  "pylib \<Rightarrow> timestamp \<Rightarrow> (int \<Rightarrow> timestamp) \<Rightarrow> int \<Rightarrow> cluster_row \<Rightarrow> database \<Rightarrow> database"
where
  "score_cluster L now wall_clock w c db =
     (let cid = cl_id c;
          members = cluster_members db cid;
          count = length members
      in if count = 0 then db
         else
           let sources = cluster_sources members;
               sourceCount = card sources;
               officialCount = card {s \<in> sources. s \<in> OFFICIAL_DOMAINS};
               sourceQuality = (if officialCount > 0 \<and> officialCount < sourceCount then ''mixed''
                                else if officialCount > 0 then ''official'' else ''community'');
               text_blob = cluster_text_blob members;
               value_score = value_score L (Some text_blob);
               valueSignals = value_signals L (Some text_blob);
               freshness_score = cluster_freshness wall_clock w c;
               feedback_counts = feedback_counts_query db now ''news'' cid;
               feedback_score = feedback_score_of feedback_counts;
               score = (real count * 1.0) + (real sourceCount * 2.0) + (value_score * 5.0)
                       + (freshness_score * 3.0);
               score = score + feedback_score;
               meta = \<lparr>meta_value_signals = valueSignals, meta_value_score = value_score,
                       meta_source_count = sourceCount, meta_source_quality = sourceQuality,
                       meta_item_count = count, meta_freshness_score = freshness_score,
                       meta_feedback_score = feedback_score,
                       meta_feedback_counts = feedback_counts\<rparr>
           in set_cluster_score cid score meta db)"

definition score_clusters ::
  "pylib \<Rightarrow> timestamp \<Rightarrow> (int \<Rightarrow> timestamp) \<Rightarrow> int \<Rightarrow> database \<Rightarrow> database"
where
  "score_clusters L now wall_clock hours db =
     (let w = window_hours (Some hours);
          rows = filter (\<lambda>r. newer_than (cl_last_seen_at r) (now - w * hour)) (clusters db)
      in fold (score_cluster L now wall_clock w) rows db)"


section \<open>Repo scorer (\<open>ranker/repo.py\<close>)\<close>

record snapshot_24h =
  s24_stars :: int
  s24_forks :: "int option"
  s24_open_issues :: "int option"

definition calculate_repo_score :: "timestamp \<Rightarrow> repo_row \<Rightarrow> snapshot_24h option \<Rightarrow> real" where
  "calculate_repo_score now repo snapshot_24h_ago =
     (let stars_now = rp_stars repo;
          stars_then = (case snapshot_24h_ago of Some s \<Rightarrow> s24_stars s | None \<Rightarrow> 0);
          delta_stars = stars_now - stars_then;
          last_pushed = rp_last_pushed_at repo;
          days_since_push = (now - last_pushed) div day;
          freshness_factor = 1.0 / sqrt (real_of_int (max days_since_push 1));
          score = (real_of_int delta_stars * 2.0) + (real_of_int stars_now * 0.01);
          score = score * freshness_factor;
          score = score + real_of_int (min (rp_open_issues repo) 50) * 0.1
      in score)"

record scored_repo =
  sr_repo :: repo_row
  sr_score :: real
  sr_delta_24h :: int
  sr_feedback_score :: real
  sr_feedback_counts :: "(string \<times> nat) list"

definition repo_skip_ids :: "database \<Rightarrow> timestamp \<Rightarrow> int option set" where
  "repo_skip_ids db now =
     set (map fb_topic_ref_id
            (filter (\<lambda>f. fb_topic_kind f = Some ''repo'' \<and> fb_label f = ''skip''
                        \<and> fb_created_at f > now - 30 * day) (user_feedback db)))"

text \<open>The snapshots of a repository captured between 30 and 20 hours ago, and the most recent
  of them (\<open>ORDER BY captured_at DESC LIMIT 1\<close>).\<close>

definition snapshots_in_window :: "database \<Rightarrow> timestamp \<Rightarrow> int \<Rightarrow> snapshot_row list" where
  "snapshots_in_window db now rid =
     filter (\<lambda>s. sn_repo_id s = rid \<and> sn_captured_at s \<ge> now - 30 * hour
                 \<and> sn_captured_at s \<le> now - 20 * hour) (repo_snapshots db)"

definition fetch_snapshot :: "database \<Rightarrow> timestamp \<Rightarrow> int \<Rightarrow> snapshot_row option" where
  "fetch_snapshot db now rid =
     (case sort_key (\<lambda>s. - sn_captured_at s) (snapshots_in_window db now rid) of
        [] \<Rightarrow> None | s # _ \<Rightarrow> Some s)"

definition score_repo ::
  "database \<Rightarrow> timestamp \<Rightarrow> (int \<Rightarrow> timestamp) \<Rightarrow> repo_row \<Rightarrow> scored_repo" where
  "score_repo db now wall_clock repo =
     (let feedback_counts = feedback_counts_query db now ''repo'' (rp_id repo);
          feedback_score = feedback_score_of feedback_counts;
          snapshot_24h =
            (case fetch_snapshot db now (rp_id repo) of
               Some snap \<Rightarrow> \<lparr>s24_stars = sn_stars snap, s24_forks = Some (sn_forks snap),
                              s24_open_issues = Some (sn_open_issues snap)\<rparr>
             | None \<Rightarrow> \<lparr>s24_stars = rp_stars repo, s24_forks = None, s24_open_issues = None\<rparr>);
          score = calculate_repo_score (wall_clock (rp_id repo)) repo (Some snapshot_24h);
          score = score + feedback_score
      in \<lparr>sr_repo = repo, sr_score = score,
          sr_delta_24h = rp_stars repo - s24_stars snapshot_24h,
          sr_feedback_score = feedback_score, sr_feedback_counts = feedback_counts\<rparr>)"

definition get_top_repos ::
  "database \<Rightarrow> timestamp \<Rightarrow> (int \<Rightarrow> timestamp) \<Rightarrow> int \<Rightarrow> scored_repo list" where
  "get_top_repos db now wall_clock limit =
     (let skip_ids = repo_skip_ids db now;
          repos = filter (\<lambda>r. Some (rp_id r) \<notin> skip_ids) (repos db);
          scored_repos = map (score_repo db now wall_clock) repos;
          scored_repos = sort_key (\<lambda>x. - sr_score x) scored_repos
      in slice_to scored_repos limit)"


section \<open>Backfill controller (\<open>get_top_clusters_with_backfill\<close>)\<close>

record settings =
  news_window_hours :: int
  news_backfill_max_steps :: int
  news_backfill_window_multiplier :: int
  news_backfill_threshold_step :: int

text \<open>
  The controller sees the three passes it calls only through the list
  \<open>get_top_clusters\<close> returns and the store they leave behind, so they are parameters here,
  over any type of store and of result.
\<close>

record ('db, 'r) pass_ops =
  op_get_top_clusters :: "int \<Rightarrow> int \<Rightarrow> 'db \<Rightarrow> 'r list \<times> 'db"  \<comment> \<open>\<open>limit\<close>, \<open>hours\<close>\<close>
  op_cluster_news :: "int \<Rightarrow> real \<Rightarrow> 'db \<Rightarrow> 'db"  \<comment> \<open>\<open>hours\<close>, \<open>similarity_threshold\<close>\<close>
  op_score_clusters :: "int \<Rightarrow> 'db \<Rightarrow> 'db"  \<comment> \<open>\<open>hours\<close>\<close>

text \<open>One entry per widening iteration: what the loop logs, and what the pass returned and
  left in the store.\<close>

record ('db, 'r) backfill_step =
  bs_step :: int
  bs_window :: int
  bs_threshold :: real
  bs_results :: "'r list"
  bs_store :: 'db

record ('db, 'r) backfill_state =
  stepCount :: int
  windowHours :: int
  threshold :: real
  results :: "'r list"
  store :: 'db
  history :: "('db, 'r) backfill_step list"

text \<open>The body of the \<open>while\<close> loop up to its \<open>break\<close> test: one widening iteration.\<close>

definition widen_once ::
  "('db, 'r) pass_ops \<Rightarrow> settings \<Rightarrow> int \<Rightarrow> ('db, 'r) backfill_state \<Rightarrow> ('db, 'r) backfill_state"
where
  "widen_once ops cfg limit s =
     (let stepCount' = stepCount s + 1;
          windowHours' = windowHours s * max 1 (news_backfill_window_multiplier cfg);
          threshold' = max 30.0 (threshold s - real_of_int (news_backfill_threshold_step cfg));
          db1 = op_cluster_news ops windowHours' threshold' (store s);
          db2 = op_score_clusters ops windowHours' db1;
          (results', db3) = op_get_top_clusters ops limit windowHours' db2
      in \<lparr>stepCount = stepCount', windowHours = windowHours', threshold = threshold',
          results = results', store = db3,
          history = history s @ [\<lparr>bs_step = stepCount', bs_window = windowHours',
                                   bs_threshold = threshold', bs_results = results',
                                   bs_store = db3\<rparr>]\<rparr>)"

function backfill_loop ::
  "('db, 'r) pass_ops \<Rightarrow> settings \<Rightarrow> int \<Rightarrow> ('db, 'r) backfill_state \<Rightarrow> ('db, 'r) backfill_state"
where
  "backfill_loop ops cfg limit s =
     (if stepCount s < news_backfill_max_steps cfg then
        let s' = widen_once ops cfg limit s
        in if int (length (results s')) \<ge> limit then s' else backfill_loop ops cfg limit s'
      else s)"
  by pat_completeness auto
termination
  by (relation "measure (\<lambda>(ops, cfg, limit, s). nat (news_backfill_max_steps cfg - stepCount s))")
     (auto simp: widen_once_def Let_def split: prod.splits)

definition get_top_clusters_with_backfill ::
  "('db, 'r) pass_ops \<Rightarrow> settings \<Rightarrow> int \<Rightarrow> 'db \<Rightarrow> ('db, 'r) backfill_state" where
  "get_top_clusters_with_backfill ops cfg limit db =
     (let (results0, db0) = op_get_top_clusters ops limit (news_window_hours cfg) db;
          s0 = \<lparr>stepCount = 0, windowHours = news_window_hours cfg,
                threshold = SIMILARITY_THRESHOLD, results = results0, store = db0,
                history = []\<rparr>
      in if int (length results0) \<ge> limit then s0 else backfill_loop ops cfg limit s0)"


section \<open>Dedup gate (\<open>briefing/dedup.py\<close>)\<close>

definition getRecentBriefRefIds ::
  "database \<Rightarrow> timestamp \<Rightarrow> string \<Rightarrow> int list \<Rightarrow> int \<Rightarrow> int set" where
  "getRecentBriefRefIds db now kind refIds hours =
     (let refIdList = refIds in
      if refIdList = [] \<or> hours \<le> 0 then {}
      else
        let rows = filter (\<lambda>b. br_kind b = kind
                               \<and> (case br_ref_id b of None \<Rightarrow> False | Some r \<Rightarrow> r \<in> set refIdList)
                               \<and> br_created_at b > now - hours * hour) (briefs db)
        in set (List.map_filter br_ref_id rows))"


section \<open>Auxiliary notions for the statements\<close>

text \<open>
  One widening pass as the source runs it: cluster with the window and the threshold, score
  with the window, read the top clusters with the window.
\<close>

definition run_pass :: "('db, 'r) pass_ops \<Rightarrow> int \<Rightarrow> int \<Rightarrow> real \<Rightarrow> 'db \<Rightarrow> 'r list \<times> 'db" where
  "run_pass ops limit w th db =
     op_get_top_clusters ops limit w (op_score_clusters ops w (op_cluster_news ops w th db))"

text \<open>
  A run of widening iterations as the loop records it, started after step \<open>k\<close> with window
  \<open>w\<close>, threshold \<open>th\<close> and store \<open>db\<close>: each entry counts one step up, widens the
  window by the multiplier, lowers the threshold by the step down to the floor of 30, holds
  what one pass with that window and threshold returns on the store the entry before it
  left, and only the last entry may hold a result list that reaches the limit.
\<close>

fun widening_run ::
  "('db, 'r) pass_ops \<Rightarrow> settings \<Rightarrow> int \<Rightarrow> int \<times> int \<times> real \<times> 'db
     \<Rightarrow> ('db, 'r) backfill_step list \<Rightarrow> bool" where
  "widening_run ops cfg limit (k, w, th, db) [] = True"
| "widening_run ops cfg limit (k, w, th, db) (e # es) =
     (bs_step e = k + 1
      \<and> bs_window e = w * max 1 (news_backfill_window_multiplier cfg)
      \<and> bs_threshold e = max 30 (th - real_of_int (news_backfill_threshold_step cfg))
      \<and> (bs_results e, bs_store e) = run_pass ops limit (bs_window e) (bs_threshold e) db
      \<and> (es = [] \<or> int (length (bs_results e)) < limit)
      \<and> widening_run ops cfg limit (bs_step e, bs_window e, bs_threshold e, bs_store e) es)"

definition loop_post ::
  "('db, 'r) pass_ops \<Rightarrow> settings \<Rightarrow> int \<Rightarrow> ('db, 'r) backfill_state \<Rightarrow> ('db, 'r) backfill_state
     \<Rightarrow> ('db, 'r) backfill_step list \<Rightarrow> bool" where
  "loop_post ops cfg limit s final ext =
     (history final = history s @ ext
       \<and> widening_run ops cfg limit (stepCount s, windowHours s, threshold s, store s) ext
       \<and> stepCount final = stepCount s + int (length ext)
       \<and> results final = (if ext = [] then results s else bs_results (last ext))
       \<and> store final = (if ext = [] then store s else bs_store (last ext))
       \<and> (stepCount s \<le> news_backfill_max_steps cfg
            \<longrightarrow> stepCount final \<le> news_backfill_max_steps cfg)
       \<and> ((ext = []) = (news_backfill_max_steps cfg \<le> stepCount s))
       \<and> (news_backfill_max_steps cfg \<le> stepCount final
            \<or> limit \<le> int (length (results final))))"


section \<open>A concrete library and concrete data for the examples\<close>

text \<open>
  Stand-ins for the library operations on the inputs of the examples below: \<open>strip\<close> and
  \<open>lower\<close> on ASCII text, the network location of a URL of the shape
  \<open>scheme://netloc/path\<close>, and the MD5 values and similarity ratios of the strings the
  examples use.
\<close>

definition is_space :: "char \<Rightarrow> bool" where
  "is_space c = (c \<in> {CHR 0x20, CHR 0x09, CHR 0x0A, CHR 0x0B, CHR 0x0C, CHR 0x0D})"

definition ascii_strip :: "string \<Rightarrow> string" where
  "ascii_strip s = rev (dropWhile is_space (rev (dropWhile is_space s)))"

definition ascii_lower :: "string \<Rightarrow> string" where
  "ascii_lower s =
     map (\<lambda>c. case map_of (zip ''ABCDEFGHIJKLMNOPQRSTUVWXYZ'' ''abcdefghijklmnopqrstuvwxyz'') c of
                None \<Rightarrow> c | Some l \<Rightarrow> l) s"

fun after_scheme :: "string \<Rightarrow> string option" where
  "after_scheme [] = None"
| "after_scheme (c # cs) =
     (if c = CHR '':'' then Some cs
      else if c \<in> set ''/?#'' then None
      else after_scheme cs)"

definition simple_netloc :: "string \<Rightarrow> string option" where
  "simple_netloc u =
     (let rest = (case after_scheme u of None \<Rightarrow> u | Some r \<Rightarrow> r) in
      if take 2 rest = ''//'' then Some (takeWhile (\<lambda>c. c \<notin> set ''/?#'') (drop 2 rest))
      else Some [])"

definition md5_known :: "string \<Rightarrow> nat" where
  "md5_known s =
     (case map_of
        [(''1|/feed/launch'', 31494506296918402816000948369166843520),
         (''1|/news/launch'', 60322442704508721520289969036322987469),
         (''1|/blog/launch'', 227604956064643550738146464459057121728),
         (''7|https://openai.com/blog/gpt-5'', 183080966365558527583683513392560694644),
         (''7|https://github.com/acme/agent'', 121444118812941656718497817782485869521),
         (''7|https://arxiv.org/abs/2601.00001'', 193644058185695915987315601910722753845),
         (''7|https://example.com/post'', 117335713102682497935899320181177930118),
         (''7|https://news.ycombinator.com/item?id=1'', 334687401202719539407795161039231389834)]
        s of
        None \<Rightarrow> 0 | Some v \<Rightarrow> v)"

definition ratio_known :: "string \<Rightarrow> string \<Rightarrow> real" where
  "ratio_known a b =
     (case map_of
        [((''Model X released'', ''Model X released''), 100),
         ((''abc'', ''abc''), 100),
         ((''abc'', ''xyz''), 0)]
        (a, b) of
        None \<Rightarrow> 0 | Some v \<Rightarrow> v)"

definition sample_lib :: pylib where
  "sample_lib = \<lparr>str_strip = ascii_strip, str_lower = ascii_lower,
                  urlsplit_netloc = simple_netloc, md5_int = md5_known,
                  token_set_ratio = ratio_known\<rparr>"

definition brief_db :: database where
  "brief_db = \<lparr>clusters = [], clusters_id_seq = 1, items = [], user_feedback = [],
               briefs = [\<lparr>br_kind = ''news'', br_ref_id = Some 1, br_created_at = 100 * hour\<rparr>,
                         \<lparr>br_kind = ''news'', br_ref_id = Some 2, br_created_at = 10 * hour\<rparr>],
               repos = [], repo_snapshots = []\<rparr>"

text \<open>Passes over a store that records the calls: the clustering calls with their window and
  threshold, the scoring calls with their window, and a count of clusters that each
  clustering pass raises by one.\<close>

definition recording_ops :: "((int \<times> real) list \<times> int list \<times> nat, nat) pass_ops" where
  "recording_ops =
     \<lparr>op_get_top_clusters = (\<lambda>limit hours (cs, ss, n). (take (nat limit) [0..<n], (cs, ss, n))),
      op_cluster_news = (\<lambda>hours th (cs, ss, n). (cs @ [(hours, th)], ss, n + 1)),
      op_score_clusters = (\<lambda>hours (cs, ss, n). (cs, ss @ [hours], n))\<rparr>"

definition default_settings :: settings where
  "default_settings = \<lparr>news_window_hours = 72, news_backfill_max_steps = 2,
                        news_backfill_window_multiplier = 2, news_backfill_threshold_step = 5\<rparr>"


text \<open>The number of feedback rows of the trailing 30 days for one topic that carry a label.\<close>

definition label_count :: "database \<Rightarrow> timestamp \<Rightarrow> string \<Rightarrow> int \<Rightarrow> string \<Rightarrow> nat" where
  "label_count db now kind ref_id label =
     length (filter (\<lambda>f. fb_label f = label) (feedback_rows db now kind ref_id))"

text \<open>The score the specification gives a cluster, from the counts over the store.\<close>

definition cluster_score_spec ::
  "pylib \<Rightarrow> timestamp \<Rightarrow> (int \<Rightarrow> timestamp) \<Rightarrow> int \<Rightarrow> database \<Rightarrow> cluster_row \<Rightarrow> real" where
  "cluster_score_spec L now wall_clock w db c =
     (let members = cluster_members db (cl_id c);
          feedback_score = real (label_count db now ''news'' (cl_id c) ''useful'') * 2
                           - real (label_count db now ''news'' (cl_id c) ''useless'') * 2
                           - real (label_count db now ''news'' (cl_id c) ''skip'') * 5
      in real (length members) * 1.0
         + real (card (cluster_sources members)) * 2.0
         + value_score L (Some (cluster_text_blob members)) * 5.0
         + cluster_freshness wall_clock w c * 3.0
         + feedback_score)"

definition repo_db :: database where
  "repo_db = \<lparr>clusters = [], clusters_id_seq = 1, items = [], user_feedback = [], briefs = [],
              repos = [\<lparr>rp_id = 11, rp_full_name = ''acme/agent'',
                         rp_url = ''https://github.com/acme/agent'', rp_description = None,
                         rp_stars = 1000, rp_forks = 12, rp_open_issues = 60,
                         rp_last_pushed_at = 0, rp_language = Some ''Python''\<rparr>],
              repo_snapshots = [\<lparr>sn_repo_id = 11, sn_stars = 900, sn_forks = 10,
                                  sn_open_issues = 50, sn_captured_at = 2 * day\<rparr>]\<rparr>"

definition score_db :: database where
  "score_db =
     \<lparr>clusters = [\<lparr>cl_id = 3, cl_title = ''Model X released'',
                    cl_first_seen_at = Some (960 * hour), cl_last_seen_at = Some (964 * hour),
                    cl_score = 0, cl_kind = ''news'', cl_item_count = Some 2, cl_meta = None\<rparr>,
                  \<lparr>cl_id = 4, cl_title = ''Old story'',
                    cl_first_seen_at = Some (100 * hour), cl_last_seen_at = Some (100 * hour),
                    cl_score = 1, cl_kind = ''news'', cl_item_count = Some 1, cl_meta = None\<rparr>],
      clusters_id_seq = 5,
      items = [\<lparr>it_id = 1, it_title = ''Model X released'',
                 it_url = Some ''https://openai.com/blog/gpt-5'', it_domain = Some ''openai.com'',
                 it_source = Some ''OpenAI'', it_summary = Some ''A free tool'',
                 it_published_at = Some (960 * hour), it_fetched_at = Some (961 * hour),
                 it_cluster_id = Some 3\<rparr>,
               \<lparr>it_id = 2, it_title = ''Model X Release Announced'',
                 it_url = Some ''https://example.com/post'', it_domain = None,
                 it_source = Some ''example.com'', it_summary = None,
                 it_published_at = None, it_fetched_at = Some (964 * hour),
                 it_cluster_id = Some 3\<rparr>],
      user_feedback = [\<lparr>fb_topic_kind = Some ''news'', fb_topic_ref_id = Some 3,
                         fb_label = ''useful'', fb_created_at = 990 * hour\<rparr>,
                       \<lparr>fb_topic_kind = Some ''news'', fb_topic_ref_id = Some 3,
                         fb_label = ''skip'', fb_created_at = 991 * hour\<rparr>,
                       \<lparr>fb_topic_kind = Some ''news'', fb_topic_ref_id = Some 3,
                         fb_label = ''useful'', fb_created_at = 992 * hour\<rparr>,
                       \<lparr>fb_topic_kind = Some ''news'', fb_topic_ref_id = Some 3,
                         fb_label = ''useless'', fb_created_at = 100 * hour\<rparr>,
                       \<lparr>fb_topic_kind = Some ''repo'', fb_topic_ref_id = Some 3,
                         fb_label = ''useless'', fb_created_at = 993 * hour\<rparr>],
      briefs = [], repos = [], repo_snapshots = []\<rparr>"

text \<open>Three candidate lists: one official link; five links of mixed rank; four site-relative
  links whose domains come from the items.\<close>

definition single_official :: "link_item list" where
  "single_official = [\<lparr>li_url = Some ''https://openai.com/blog/gpt-5'',
                        li_domain = Some ''openai.com''\<rparr>]"

definition mixed_links :: "link_item list" where
  "mixed_links =
     [\<lparr>li_url = Some ''https://news.ycombinator.com/item?id=1'', li_domain = None\<rparr>,
      \<lparr>li_url = Some ''https://arxiv.org/abs/2601.00001'', li_domain = Some ''arxiv.org''\<rparr>,
      \<lparr>li_url = Some '' https://github.com/acme/agent '', li_domain = Some ''GitHub''\<rparr>,
      \<lparr>li_url = Some ''https://example.com/post'', li_domain = Some ''example.com''\<rparr>,
      \<lparr>li_url = None, li_domain = Some ''example.org''\<rparr>,
      \<lparr>li_url = Some ''https://openai.com/blog/gpt-5'', li_domain = Some ''openai.com''\<rparr>]"

definition relative_links :: "link_item list" where
  "relative_links =
     [\<lparr>li_url = Some ''/feed/launch'', li_domain = Some ''a.example.com''\<rparr>,
      \<lparr>li_url = Some ''/news/launch'', li_domain = Some ''c.example.com''\<rparr>,
      \<lparr>li_url = Some ''/news/launch'', li_domain = Some ''b.example.com''\<rparr>,
      \<lparr>li_url = Some ''/blog/launch'', li_domain = Some ''a.example.com''\<rparr>]"

text \<open>Another hash, equal to the first on every string that starts with \<open>7|\<close>.\<close>

definition other_md5 :: "string \<Rightarrow> nat" where
  "other_md5 s = (if take 2 s = ''7|'' then md5_known s else 99)"

definition arxiv_only :: "link_item list" where
  "arxiv_only = [\<lparr>li_url = Some ''https://arxiv.org/abs/2601.00001'',
                   li_domain = Some ''arxiv.org''\<rparr>]"

definition assign_db :: database where
  "assign_db =
     \<lparr>clusters = [\<lparr>cl_id = 3, cl_title = ''xyz'',
                    cl_first_seen_at = Some (90 * hour), cl_last_seen_at = Some (95 * hour),
                    cl_score = 0, cl_kind = ''news'', cl_item_count = Some 1, cl_meta = None\<rparr>],
      clusters_id_seq = 4,
      items = [\<lparr>it_id = 1, it_title = ''xyz'', it_url = None, it_domain = None,
                 it_source = Some ''example.com'', it_summary = None,
                 it_published_at = Some (95 * hour), it_fetched_at = Some (95 * hour),
                 it_cluster_id = Some 3\<rparr>,
               \<lparr>it_id = 2, it_title = ''abc'', it_url = None, it_domain = None,
                 it_source = Some ''example.org'', it_summary = None,
                 it_published_at = Some (97 * hour), it_fetched_at = Some (99 * hour),
                 it_cluster_id = None\<rparr>,
               \<lparr>it_id = 5, it_title = ''abc'', it_url = None, it_domain = None,
                 it_source = Some ''example.net'', it_summary = None,
                 it_published_at = None, it_fetched_at = Some (98 * hour),
                 it_cluster_id = None\<rparr>],
      user_feedback = [], briefs = [], repos = [], repo_snapshots = []\<rparr>"


section \<open>Dedup gate\<close>

text \<open>
  C8.  The dedup gate returns the empty set whenever the list of reference ids is empty or
  \<open>hours\<close> is not positive, whatever briefs the store holds.
\<close>

theorem dedup_gate_fast_path:
  "refIds = [] \<or> hours \<le> 0 \<Longrightarrow> getRecentBriefRefIds db now kind refIds hours = {}"
  by (auto simp: getRecentBriefRefIds_def Let_def)

lemma dedup_gate_hit:
  "getRecentBriefRefIds brief_db (101 * hour) ''news'' [1, 2, 3] 24 = {1}"
  by (simp add: getRecentBriefRefIds_def brief_db_def hour_def List.map_filter_simps)

theorem dedup_gate_fast_path_witness:
  "getRecentBriefRefIds brief_db (101 * hour) ''news'' [] 24 = {}
   \<and> getRecentBriefRefIds brief_db (101 * hour) ''news'' [1, 2, 3] 0 = {}
   \<and> getRecentBriefRefIds brief_db (101 * hour) ''news'' [1, 2, 3] 24 = {1}"
  using dedup_gate_fast_path[of "[]" 24 brief_db "101 * hour" "''news''"]
        dedup_gate_fast_path[of "[1, 2, 3]" 0 brief_db "101 * hour" "''news''"]
        dedup_gate_hit
  by simp


section \<open>Freshness\<close>





section \<open>Backfill controller\<close>

declare backfill_loop.simps [simp del]

lemma widen_once_fields:
  "stepCount (widen_once ops cfg limit s) = stepCount s + 1"
  "windowHours (widen_once ops cfg limit s)
     = windowHours s * max 1 (news_backfill_window_multiplier cfg)"
  "threshold (widen_once ops cfg limit s)
     = max 30 (threshold s - real_of_int (news_backfill_threshold_step cfg))"
  "(results (widen_once ops cfg limit s), store (widen_once ops cfg limit s))
     = run_pass ops limit (windowHours s * max 1 (news_backfill_window_multiplier cfg))
         (max 30 (threshold s - real_of_int (news_backfill_threshold_step cfg))) (store s)"
  "history (widen_once ops cfg limit s)
     = history s @
       [\<lparr>bs_step = stepCount s + 1,
         bs_window = windowHours s * max 1 (news_backfill_window_multiplier cfg),
         bs_threshold = max 30 (threshold s - real_of_int (news_backfill_threshold_step cfg)),
         bs_results = results (widen_once ops cfg limit s),
         bs_store = store (widen_once ops cfg limit s)\<rparr>]"
  by (simp_all add: widen_once_def run_pass_def Let_def split: prod.splits)

lemma loop_postD:
  assumes "loop_post ops cfg limit s final ext"
  shows "history final = history s @ ext"
    and "widening_run ops cfg limit (stepCount s, windowHours s, threshold s, store s) ext"
    and "stepCount final = stepCount s + int (length ext)"
    and "results final = (if ext = [] then results s else bs_results (last ext))"
    and "store final = (if ext = [] then store s else bs_store (last ext))"
    and "stepCount s \<le> news_backfill_max_steps cfg
           \<longrightarrow> stepCount final \<le> news_backfill_max_steps cfg"
    and "(ext = []) = (news_backfill_max_steps cfg \<le> stepCount s)"
    and "news_backfill_max_steps cfg \<le> stepCount final
           \<or> limit \<le> int (length (results final))"
  using assms unfolding loop_post_def by blast+

text \<open>The loop, entered in any state, appends a well-formed run to the history.\<close>

lemma backfill_loop_run:
  "\<exists>ext. loop_post ops cfg limit s (backfill_loop ops cfg limit s) ext"
proof (induction ops cfg limit s rule: backfill_loop.induct)
  case (1 ops cfg limit s)
  let ?M = "news_backfill_max_steps cfg"
  let ?s' = "widen_once ops cfg limit s"
  let ?e = "\<lparr>bs_step = stepCount s + 1,
             bs_window = windowHours s * max 1 (news_backfill_window_multiplier cfg),
             bs_threshold = max 30 (threshold s - real_of_int (news_backfill_threshold_step cfg)),
             bs_results = results ?s', bs_store = store ?s'\<rparr>"
  show ?case
  proof (cases "stepCount s < ?M")
    case False
    then have "backfill_loop ops cfg limit s = s" by (simp add: backfill_loop.simps)
    then have "loop_post ops cfg limit s (backfill_loop ops cfg limit s) []"
      using False by (simp add: loop_post_def)
    then show ?thesis ..
  next
    case lt: True
    show ?thesis
    proof (cases "limit \<le> int (length (results ?s'))")
      case True
      then have eq: "backfill_loop ops cfg limit s = ?s'"
        using lt by (simp add: backfill_loop.simps[of ops cfg limit s] Let_def)
      have "loop_post ops cfg limit s (backfill_loop ops cfg limit s) [?e]"
        unfolding eq using lt True by (simp add: loop_post_def widen_once_fields)
      then show ?thesis ..
    next
      case False
      then have eq: "backfill_loop ops cfg limit s = backfill_loop ops cfg limit ?s'"
        using lt by (simp add: backfill_loop.simps[of ops cfg limit s] Let_def)
      from "1.IH"[OF lt refl False]
      obtain ext where ext: "loop_post ops cfg limit ?s' (backfill_loop ops cfg limit ?s') ext" ..
      have "loop_post ops cfg limit s (backfill_loop ops cfg limit s) (?e # ext)"
        unfolding eq using ext lt False
        by (auto simp: loop_post_def widen_once_fields)
      then show ?thesis ..
    qed
  qed
qed

lemma widening_run_nth:
  "widening_run ops cfg limit (k, w, th, db) ext \<Longrightarrow> i < length ext \<Longrightarrow>
     bs_step (ext ! i) = k + int i + 1
     \<and> bs_window (ext ! i)
         = (if i = 0 then w else bs_window (ext ! (i - 1)))
           * max 1 (news_backfill_window_multiplier cfg)
     \<and> bs_threshold (ext ! i)
         = max 30 ((if i = 0 then th else bs_threshold (ext ! (i - 1)))
                   - real_of_int (news_backfill_threshold_step cfg))
     \<and> (bs_results (ext ! i), bs_store (ext ! i))
         = run_pass ops limit (bs_window (ext ! i)) (bs_threshold (ext ! i))
             (if i = 0 then db else bs_store (ext ! (i - 1)))
     \<and> (Suc i < length ext \<longrightarrow> int (length (bs_results (ext ! i))) < limit)"
proof (induction ext arbitrary: k w th db i)
  case Nil
  then show ?case by simp
next
  case (Cons e es)
  show ?case
  proof (cases i)
    case 0
    then show ?thesis using Cons.prems by auto
  next
    case (Suc j)
    then have j: "j < length es" using Cons.prems by simp
    from Cons.prems
    have run: "widening_run ops cfg limit (bs_step e, bs_window e, bs_threshold e, bs_store e) es"
      by auto
    from Cons.IH[OF run j] Cons.prems(1) Suc show ?thesis
      by (cases j) auto
  qed
qed

text \<open>
  C7.  The controller runs at most \<open>max_steps\<close> widening iterations, whatever the passes
  return.  The \<open>i\<close>-th iteration is step \<open>i + 1\<close>; its window is the window of the
  iteration before it (the configured one before the first) times the multiplier, its
  threshold the threshold of the iteration before it (70 before the first) lowered by the
  configured step, but never less than 30; and what it returns and leaves in the store is
  what \<open>cluster_news\<close> with that window and threshold, then \<open>score_clusters\<close> and
  \<open>get_top_clusters\<close> with that window, make of the store the iteration before it left.
  Only the last iteration can have reached the target: the loop stops at once when it is
  reached, it is not entered when the first pass already reaches it, and it ends before the
  budget is used up only with the target reached.  The result and the store are those of
  the last pass.
\<close>

theorem backfill_bounded:
  fixes ops :: "('db, 'r) pass_ops"
  shows
  "let final = get_top_clusters_with_backfill ops cfg limit db;
       first = op_get_top_clusters ops limit (news_window_hours cfg) db;
       H = history final
   in int (length H) \<le> max 0 (news_backfill_max_steps cfg)
      \<and> (\<forall>i < length H.
            bs_step (H ! i) = int i + 1
            \<and> bs_window (H ! i)
                = (if i = 0 then news_window_hours cfg else bs_window (H ! (i - 1)))
                  * max 1 (news_backfill_window_multiplier cfg)
            \<and> bs_threshold (H ! i)
                = max 30 ((if i = 0 then SIMILARITY_THRESHOLD else bs_threshold (H ! (i - 1)))
                          - real_of_int (news_backfill_threshold_step cfg))
            \<and> 30 \<le> bs_threshold (H ! i)
            \<and> (bs_results (H ! i), bs_store (H ! i))
                = op_get_top_clusters ops limit (bs_window (H ! i))
                    (op_score_clusters ops (bs_window (H ! i))
                       (op_cluster_news ops (bs_window (H ! i)) (bs_threshold (H ! i))
                          (if i = 0 then snd first else bs_store (H ! (i - 1)))))
            \<and> (Suc i < length H \<longrightarrow> int (length (bs_results (H ! i))) < limit))
      \<and> (limit \<le> int (length (fst first)) \<longrightarrow> H = [])
      \<and> results final = (if H = [] then fst first else bs_results (last H))
      \<and> store final = (if H = [] then snd first else bs_store (last H))
      \<and> (int (length H) < news_backfill_max_steps cfg
           \<longrightarrow> limit \<le> int (length (results final)))"
proof -
  obtain results0 db0
    where top: "op_get_top_clusters ops limit (news_window_hours cfg) db = (results0, db0)"
    by (cases "op_get_top_clusters ops limit (news_window_hours cfg) db")
  let ?s0 = "\<lparr>stepCount = 0, windowHours = news_window_hours cfg,
                threshold = SIMILARITY_THRESHOLD, results = results0, store = db0,
                history = []\<rparr> :: ('db, 'r) backfill_state"
  show ?thesis
  proof (cases "limit \<le> int (length results0)")
    case True
    then have "get_top_clusters_with_backfill ops cfg limit db = ?s0"
      by (simp add: get_top_clusters_with_backfill_def top)
    then show ?thesis using True by (simp add: top Let_def)
  next
    case False
    then have eq: "get_top_clusters_with_backfill ops cfg limit db
                     = backfill_loop ops cfg limit ?s0"
      by (simp add: get_top_clusters_with_backfill_def top)
    define final where "final = backfill_loop ops cfg limit ?s0"
    obtain ext where lp: "loop_post ops cfg limit ?s0 final ext"
      unfolding final_def using backfill_loop_run by blast
    have post:
      "history final = ext"
      "widening_run ops cfg limit (0, news_window_hours cfg, SIMILARITY_THRESHOLD, db0) ext"
      "stepCount final = int (length ext)"
      "results final = (if ext = [] then results0 else bs_results (last ext))"
      "store final = (if ext = [] then db0 else bs_store (last ext))"
      "0 \<le> news_backfill_max_steps cfg \<longrightarrow> stepCount final \<le> news_backfill_max_steps cfg"
      "(ext = []) = (news_backfill_max_steps cfg \<le> 0)"
      "news_backfill_max_steps cfg \<le> stepCount final
         \<or> limit \<le> int (length (results final))"
      using loop_postD[OF lp] by simp_all
    have len: "int (length ext) \<le> max 0 (news_backfill_max_steps cfg)"
    proof (cases "0 \<le> news_backfill_max_steps cfg")
      case True
      then show ?thesis using post(6) post(3) by simp
    next
      case False
      then have "ext = []" using post(7) by simp
      then show ?thesis by simp
    qed
    have stop: "int (length ext) < news_backfill_max_steps cfg
                  \<longrightarrow> limit \<le> int (length (results final))"
      using post(8) post(3) by linarith
    have nth: "\<forall>i < length ext.
            bs_step (ext ! i) = int i + 1
            \<and> bs_window (ext ! i)
                = (if i = 0 then news_window_hours cfg else bs_window (ext ! (i - 1)))
                  * max 1 (news_backfill_window_multiplier cfg)
            \<and> bs_threshold (ext ! i)
                = max 30 ((if i = 0 then SIMILARITY_THRESHOLD else bs_threshold (ext ! (i - 1)))
                          - real_of_int (news_backfill_threshold_step cfg))
            \<and> 30 \<le> bs_threshold (ext ! i)
            \<and> (bs_results (ext ! i), bs_store (ext ! i))
                = op_get_top_clusters ops limit (bs_window (ext ! i))
                    (op_score_clusters ops (bs_window (ext ! i))
                       (op_cluster_news ops (bs_window (ext ! i)) (bs_threshold (ext ! i))
                          (if i = 0 then db0 else bs_store (ext ! (i - 1)))))
            \<and> (Suc i < length ext \<longrightarrow> int (length (bs_results (ext ! i))) < limit)"
    proof (intro allI impI)
      fix i assume i: "i < length ext"
      note n = widening_run_nth[OF post(2) i]
      have a: "bs_step (ext ! i) = int i + 1" using n by simp
      have b: "bs_window (ext ! i)
                = (if i = 0 then news_window_hours cfg else bs_window (ext ! (i - 1)))
                  * max 1 (news_backfill_window_multiplier cfg)" using n by blast
      have c: "bs_threshold (ext ! i)
                = max 30 ((if i = 0 then SIMILARITY_THRESHOLD else bs_threshold (ext ! (i - 1)))
                          - real_of_int (news_backfill_threshold_step cfg))" using n by blast
      have d: "30 \<le> bs_threshold (ext ! i)" by (subst c) simp
      have e: "(bs_results (ext ! i), bs_store (ext ! i))
                = op_get_top_clusters ops limit (bs_window (ext ! i))
                    (op_score_clusters ops (bs_window (ext ! i))
                       (op_cluster_news ops (bs_window (ext ! i)) (bs_threshold (ext ! i))
                          (if i = 0 then db0 else bs_store (ext ! (i - 1)))))"
        using n unfolding run_pass_def by blast
      have f: "Suc i < length ext \<longrightarrow> int (length (bs_results (ext ! i))) < limit"
        using n by blast
      from a b c d e f
      show "bs_step (ext ! i) = int i + 1
            \<and> bs_window (ext ! i)
                = (if i = 0 then news_window_hours cfg else bs_window (ext ! (i - 1)))
                  * max 1 (news_backfill_window_multiplier cfg)
            \<and> bs_threshold (ext ! i)
                = max 30 ((if i = 0 then SIMILARITY_THRESHOLD else bs_threshold (ext ! (i - 1)))
                          - real_of_int (news_backfill_threshold_step cfg))
            \<and> 30 \<le> bs_threshold (ext ! i)
            \<and> (bs_results (ext ! i), bs_store (ext ! i))
                = op_get_top_clusters ops limit (bs_window (ext ! i))
                    (op_score_clusters ops (bs_window (ext ! i))
                       (op_cluster_news ops (bs_window (ext ! i)) (bs_threshold (ext ! i))
                          (if i = 0 then db0 else bs_store (ext ! (i - 1)))))
            \<and> (Suc i < length ext \<longrightarrow> int (length (bs_results (ext ! i))) < limit)"
        by (intro conjI)
    qed
    have fin: "get_top_clusters_with_backfill ops cfg limit db = final"
      using eq final_def by simp
    show ?thesis
      unfolding Let_def fin post(1) top fst_conv snd_conv
    proof (intro conjI)
      show "int (length ext) \<le> max 0 (news_backfill_max_steps cfg)" by (rule len)
      show "\<forall>i < length ext.
            bs_step (ext ! i) = int i + 1
            \<and> bs_window (ext ! i)
                = (if i = 0 then news_window_hours cfg else bs_window (ext ! (i - 1)))
                  * max 1 (news_backfill_window_multiplier cfg)
            \<and> bs_threshold (ext ! i)
                = max 30 ((if i = 0 then SIMILARITY_THRESHOLD else bs_threshold (ext ! (i - 1)))
                          - real_of_int (news_backfill_threshold_step cfg))
            \<and> 30 \<le> bs_threshold (ext ! i)
            \<and> (bs_results (ext ! i), bs_store (ext ! i))
                = op_get_top_clusters ops limit (bs_window (ext ! i))
                    (op_score_clusters ops (bs_window (ext ! i))
                       (op_cluster_news ops (bs_window (ext ! i)) (bs_threshold (ext ! i))
                          (if i = 0 then db0 else bs_store (ext ! (i - 1)))))
            \<and> (Suc i < length ext \<longrightarrow> int (length (bs_results (ext ! i))) < limit)"
        by (rule nth)
      show "limit \<le> int (length results0) \<longrightarrow> ext = []" using False by simp
      show "results final = (if ext = [] then results0 else bs_results (last ext))"
        by (rule post(4))
      show "store final = (if ext = [] then db0 else bs_store (last ext))"
        by (rule post(5))
      show "int (length ext) < news_backfill_max_steps cfg
              \<longrightarrow> limit \<le> int (length (results final))"
        by (rule stop)
    qed
  qed
qed

lemma recording_run:
  "get_top_clusters_with_backfill recording_ops default_settings 5 ([], [], 0)
     = \<lparr>stepCount = 2, windowHours = 288, threshold = 60, results = [0, 1],
        store = ([(144, 65), (288, 60)], [144, 288], 2),
        history = [\<lparr>bs_step = 1, bs_window = 144, bs_threshold = 65, bs_results = [0],
                     bs_store = ([(144, 65)], [144], 1)\<rparr>,
                   \<lparr>bs_step = 2, bs_window = 288, bs_threshold = 60, bs_results = [0, 1],
                     bs_store = ([(144, 65), (288, 60)], [144, 288], 2)\<rparr>]\<rparr>"
  by (simp add: get_top_clusters_with_backfill_def recording_ops_def default_settings_def
      backfill_loop.simps widen_once_def Let_def SIMILARITY_THRESHOLD_def)

lemma recording_run_early:
  "get_top_clusters_with_backfill recording_ops default_settings 1 ([], [], 0)
     = \<lparr>stepCount = 1, windowHours = 144, threshold = 65, results = [0],
        store = ([(144, 65)], [144], 1),
        history = [\<lparr>bs_step = 1, bs_window = 144, bs_threshold = 65, bs_results = [0],
                     bs_store = ([(144, 65)], [144], 1)\<rparr>]\<rparr>"
  by (simp add: get_top_clusters_with_backfill_def recording_ops_def default_settings_def
      backfill_loop.simps widen_once_def Let_def SIMILARITY_THRESHOLD_def)

lemma recording_run_none:
  "get_top_clusters_with_backfill recording_ops default_settings 0 ([], [], 0)
     = \<lparr>stepCount = 0, windowHours = 72, threshold = 70, results = [],
        store = ([], [], 0), history = []\<rparr>"
  by (simp add: get_top_clusters_with_backfill_def recording_ops_def default_settings_def
      backfill_loop.simps widen_once_def Let_def SIMILARITY_THRESHOLD_def)

theorem backfill_bounded_witness:
  "int (length (history (get_top_clusters_with_backfill recording_ops default_settings 5 ([], [], 0))))
     \<le> max 0 (news_backfill_max_steps default_settings)
   \<and> news_backfill_max_steps default_settings = 2
   \<and> map bs_threshold
        (history (get_top_clusters_with_backfill recording_ops default_settings 5 ([], [], 0)))
       = [65, 60]
   \<and> results (get_top_clusters_with_backfill recording_ops default_settings 5 ([], [], 0)) = [0, 1]
   \<and> store (get_top_clusters_with_backfill recording_ops default_settings 5 ([], [], 0))
       = ([(144, 65), (288, 60)], [144, 288], 2)
   \<and> store (get_top_clusters_with_backfill recording_ops default_settings 1 ([], [], 0))
       = ([(144, 65)], [144], 1)
   \<and> results (get_top_clusters_with_backfill recording_ops default_settings 1 ([], [], 0)) = [0]
   \<and> store (get_top_clusters_with_backfill recording_ops default_settings 0 ([], [], 0))
       = ([], [], 0)"
proof -
  from backfill_bounded[of recording_ops default_settings 5 "([], [], 0)"]
  have "int (length (history
          (get_top_clusters_with_backfill recording_ops default_settings 5 ([], [], 0))))
          \<le> max 0 (news_backfill_max_steps default_settings)"
    unfolding Let_def by (rule conjunct1)
  moreover have "news_backfill_max_steps default_settings = 2"
    by (simp add: default_settings_def)
  ultimately show ?thesis
    by (simp add: recording_run recording_run_early recording_run_none)
qed


section \<open>Signal scorer\<close>

lemma fold_score_sum:
  "fold (\<lambda>(key, (weight, keywords)) score. if P keywords then score + weight else score) tbl (acc::real)
     = acc + sum_list (map (\<lambda>(key, (weight, keywords)). weight) (filter (\<lambda>(key, (weight, keywords)). P keywords) tbl))"
  by (induction tbl arbitrary: acc) (auto split: prod.splits)

lemma fold_signals_filter:
  "fold (\<lambda>(key, (weight, keywords)) signals. if P keywords then signals @ [key] else signals) tbl acc
     = acc @ map fst (filter (\<lambda>(key, (weight, keywords)). P keywords) tbl)"
  by (induction tbl arbitrary: acc) (auto split: prod.splits)

lemma VALUE_SIGNALS_distinct: "distinct (map fst VALUE_SIGNALS)"
  by (simp add: VALUE_SIGNALS_def)

lemma signal_weight_entry:
  "(key, (weight, keywords)) \<in> set VALUE_SIGNALS \<Longrightarrow> signal_weight key = weight"
  using VALUE_SIGNALS_distinct by (simp add: signal_weight_def)

lemma weights_of_entries:
  "set tbl \<subseteq> set VALUE_SIGNALS \<Longrightarrow>
     map (\<lambda>(key, (weight, keywords)). weight) tbl = map signal_weight (map fst tbl)"
  by (induction tbl) (auto simp: signal_weight_entry)

text \<open>
  C10.  The value score of a text is the sum of the weights of exactly the categories that
  \<open>_value_signals\<close> reports for it, and a category is reported if and only if one of its
  keywords is a substring of the normalized (stripped, lowercased) text.
\<close>

theorem value_score_reconstructible:
  "value_score L text = sum_list (map signal_weight (value_signals L text))
   \<and> (\<forall>key. key \<in> set (value_signals L text) \<longleftrightarrow>
         (\<exists>weight keywords. (key, (weight, keywords)) \<in> set VALUE_SIGNALS
            \<and> (\<exists>k \<in> set keywords. sublist k (normalize_text L text))))"
proof -
  let ?n = "normalize_text L text"
  let ?fired = "filter (\<lambda>(key, (weight, keywords)). signal_fires ?n keywords) VALUE_SIGNALS"
  have sig: "value_signals L text = map fst ?fired"
    by (simp add: value_signals_def Let_def fold_signals_filter)
  have "value_score L text = sum_list (map (\<lambda>(key, (weight, keywords)). weight) ?fired)"
    by (simp add: value_score_def Let_def fold_score_sum)
  also have "map (\<lambda>(key, (weight, keywords)). weight) ?fired = map signal_weight (map fst ?fired)"
    by (rule weights_of_entries) auto
  finally have score: "value_score L text = sum_list (map signal_weight (value_signals L text))"
    by (simp add: sig)
  have mem: "\<forall>key. key \<in> set (value_signals L text) \<longleftrightarrow>
         (\<exists>weight keywords. (key, (weight, keywords)) \<in> set VALUE_SIGNALS
            \<and> (\<exists>k \<in> set keywords. sublist k ?n))"
    unfolding sig by (force simp: signal_fires_def list_ex_iff)
  from score mem show ?thesis by blast
qed

lemma normalize_example:
  "normalize_text sample_lib (Some ''  Free AI Agent pricing guide '') = ''free ai agent pricing guide''"
  by (simp add: sample_lib_def normalize_text_def or_empty_def ascii_strip_def ascii_lower_def is_space_def)

lemma signals_example:
  "value_signals sample_lib (Some ''  Free AI Agent pricing guide '')
     = [''monetization'', ''productivity'', ''learning'', ''consumer_value'']"
  unfolding value_signals_def Let_def normalize_example
  by (simp add: VALUE_SIGNALS_def signal_fires_def sublist_Cons_right)

lemma weights_example:
  "map signal_weight [''monetization'', ''productivity'', ''learning'', ''consumer_value'']
     = [3.5, 3.0, 2.5, 2.5]"
  by (simp add: signal_weight_def VALUE_SIGNALS_def)

theorem value_score_reconstructible_witness:
  "value_signals sample_lib (Some ''  Free AI Agent pricing guide '')
     = [''monetization'', ''productivity'', ''learning'', ''consumer_value'']
   \<and> value_score sample_lib (Some ''  Free AI Agent pricing guide '') = 11.5"
proof -
  from value_score_reconstructible[of sample_lib "Some ''  Free AI Agent pricing guide ''"]
  have "value_score sample_lib (Some ''  Free AI Agent pricing guide '')
          = sum_list (map signal_weight
              (value_signals sample_lib (Some ''  Free AI Agent pricing guide '')))"
    by (rule conjunct1)
  then show ?thesis
    unfolding signals_example weights_example by simp
qed


section \<open>Repo scorer\<close>

lemma set_slice_to: "set (slice_to xs n) \<subseteq> set xs"
  by (auto simp: slice_to_def dest: in_set_takeD)

lemma score_repo_repo: "sr_repo (score_repo db now wall_clock repo) = repo"
  by (simp add: score_repo_def Let_def)

lemma fetch_snapshot_none:
  "snapshots_in_window db now rid = [] \<Longrightarrow> fetch_snapshot db now rid = None"
  by (simp add: fetch_snapshot_def)

lemma score_repo_no_snapshot:
  assumes "snapshots_in_window db now (rp_id repo) = []"
  shows "sr_delta_24h (score_repo db now wall_clock repo) = 0"
    and "sr_score (score_repo db now wall_clock repo)
           = (0 * 2.0 + real_of_int (rp_stars repo) * 0.01)
               * (1 / sqrt (real_of_int
                    (max ((wall_clock (rp_id repo) - rp_last_pushed_at repo) div day) 1)))
             + real_of_int (min (rp_open_issues repo) 50) * 0.1
             + sr_feedback_score (score_repo db now wall_clock repo)"
  using assms
  by (simp_all add: score_repo_def Let_def fetch_snapshot_none calculate_repo_score_def)

text \<open>
  C6.  For every repository in the list \<open>get_top_repos\<close> returns that has no snapshot
  captured between 30 and 20 hours ago, the star count of 24 hours ago is taken to be the
  current one: \<open>delta_24h\<close> is 0 and the score before the feedback is added is
  \<open>(0 * 2.0 + stars * 0.01) * (1 / sqrt (max days_since_push 1)) + min open_issues 50 * 0.1\<close>;
  with 1000 stars, 60 open issues and 4 days since the last push that is exactly 10.
\<close>

theorem repo_score_without_snapshot:
  "\<forall>e \<in> set (get_top_repos db now wall_clock limit).
     snapshots_in_window db now (rp_id (sr_repo e)) = [] \<longrightarrow>
       (let repo = sr_repo e;
            days_since_push = (wall_clock (rp_id repo) - rp_last_pushed_at repo) div day
        in sr_delta_24h e = 0
           \<and> sr_score e
               = (0 * 2.0 + real_of_int (rp_stars repo) * 0.01)
                   * (1 / sqrt (real_of_int (max days_since_push 1)))
                 + real_of_int (min (rp_open_issues repo) 50) * 0.1
                 + sr_feedback_score e
           \<and> (rp_stars repo = 1000 \<and> rp_open_issues repo = 60 \<and> days_since_push = 4
                \<longrightarrow> sr_score e - sr_feedback_score e = 10.0))"
proof (intro ballI impI)
  fix e
  assume e: "e \<in> set (get_top_repos db now wall_clock limit)"
    and none: "snapshots_in_window db now (rp_id (sr_repo e)) = []"
  from e have "e \<in> set (sort_key (\<lambda>x. - sr_score x)
                  (map (score_repo db now wall_clock)
                    (filter (\<lambda>r. Some (rp_id r) \<notin> repo_skip_ids db now) (repos db))))"
    unfolding get_top_repos_def Let_def by (rule subsetD[OF set_slice_to])
  then obtain repo where repo: "e = score_repo db now wall_clock repo"
    by auto
  have r: "sr_repo e = repo" by (simp add: repo score_repo_repo)
  let ?days = "(wall_clock (rp_id repo) - rp_last_pushed_at repo) div day"
  have none': "snapshots_in_window db now (rp_id repo) = []" using none r by simp
  have d: "sr_delta_24h e = 0"
    unfolding repo by (rule score_repo_no_snapshot(1)[OF none'])
  have s: "sr_score e
               = (0 * 2.0 + real_of_int (rp_stars repo) * 0.01)
                   * (1 / sqrt (real_of_int (max ?days 1)))
                 + real_of_int (min (rp_open_issues repo) 50) * 0.1
                 + sr_feedback_score e"
    unfolding repo by (rule score_repo_no_snapshot(2)[OF none'])
  have ten: "sr_score e - sr_feedback_score e = 10.0"
    if a: "rp_stars repo = 1000" and b: "rp_open_issues repo = 60" and c: "?days = 4"
  proof -
    have "sr_score e - sr_feedback_score e
            = (0 * 2.0 + real_of_int (rp_stars repo) * 0.01)
                   * (1 / sqrt (real_of_int (max ?days 1)))
                 + real_of_int (min (rp_open_issues repo) 50) * 0.1"
      by (subst s) simp
    also have "\<dots> = 10.0" unfolding a b c by simp
    finally show ?thesis .
  qed
  show "let repo = sr_repo e;
            days_since_push = (wall_clock (rp_id repo) - rp_last_pushed_at repo) div day
        in sr_delta_24h e = 0
           \<and> sr_score e
               = (0 * 2.0 + real_of_int (rp_stars repo) * 0.01)
                   * (1 / sqrt (real_of_int (max days_since_push 1)))
                 + real_of_int (min (rp_open_issues repo) 50) * 0.1
                 + sr_feedback_score e
           \<and> (rp_stars repo = 1000 \<and> rp_open_issues repo = 60 \<and> days_since_push = 4
                \<longrightarrow> sr_score e - sr_feedback_score e = 10.0)"
    unfolding Let_def r
  proof (intro conjI impI)
    show "sr_delta_24h e = 0" by (rule d)
    show "sr_score e
               = (0 * 2.0 + real_of_int (rp_stars repo) * 0.01)
                   * (1 / sqrt (real_of_int (max ?days 1)))
                 + real_of_int (min (rp_open_issues repo) 50) * 0.1
                 + sr_feedback_score e" by (rule s)
    assume "rp_stars repo = 1000 \<and> rp_open_issues repo = 60 \<and> ?days = 4"
    then show "sr_score e - sr_feedback_score e = 10.0"
      using ten by (elim conjE)
  qed
qed

lemma repo_example:
  "get_top_repos repo_db (4 * day + 5 * hour) (\<lambda>rid. 4 * day + 5 * hour) 10
     = [\<lparr>sr_repo = hd (repos repo_db), sr_score = 10, sr_delta_24h = 0,
         sr_feedback_score = 0, sr_feedback_counts = []\<rparr>]"
  by (simp add: get_top_repos_def repo_db_def repo_skip_ids_def score_repo_def Let_def
      fetch_snapshot_def snapshots_in_window_def feedback_counts_query_def feedback_rows_def
      feedback_score_of_def dict_get_def calculate_repo_score_def day_def hour_def slice_to_def)

lemma repo_example_with_snapshot:
  "map sr_delta_24h (get_top_repos repo_db (3 * day) (\<lambda>rid. 3 * day) 10) = [100]"
  by (simp add: get_top_repos_def repo_db_def repo_skip_ids_def score_repo_def Let_def
      fetch_snapshot_def snapshots_in_window_def feedback_counts_query_def feedback_rows_def
      feedback_score_of_def dict_get_def calculate_repo_score_def day_def hour_def slice_to_def)

theorem repo_score_without_snapshot_witness:
  "snapshots_in_window repo_db (4 * day + 5 * hour) 11 = []
   \<and> map sr_delta_24h (get_top_repos repo_db (4 * day + 5 * hour) (\<lambda>rid. 4 * day + 5 * hour) 10)
       = [0]
   \<and> map sr_score (get_top_repos repo_db (4 * day + 5 * hour) (\<lambda>rid. 4 * day + 5 * hour) 10)
       = [10]
   \<and> map sr_delta_24h (get_top_repos repo_db (3 * day) (\<lambda>rid. 3 * day) 10) = [100]"
proof -
  let ?e = "\<lparr>sr_repo = hd (repos repo_db), sr_score = 10, sr_delta_24h = 0,
             sr_feedback_score = 0, sr_feedback_counts = []\<rparr>"
  have mem: "?e \<in> set (get_top_repos repo_db (4 * day + 5 * hour) (\<lambda>rid. 4 * day + 5 * hour) 10)"
    by (simp add: repo_example)
  have none: "snapshots_in_window repo_db (4 * day + 5 * hour) 11 = []"
    by (simp add: repo_db_def snapshots_in_window_def day_def hour_def)
  have id: "rp_id (sr_repo ?e) = 11" by (simp add: repo_db_def)
  from bspec[OF repo_score_without_snapshot mem] none id
  have "sr_delta_24h ?e = 0" by (simp add: Let_def)
  then show ?thesis
    using none by (simp add: repo_example repo_example_with_snapshot)
qed


section \<open>Cluster scorer\<close>

lemma map_of_tabulate:
  "map_of (map (\<lambda>l. (l, f l)) xs) k = (if k \<in> set xs then Some (f k) else None)"
  by (induction xs) auto

lemma count_list_map_filter:
  "count_list (map f xs) k = length (filter (\<lambda>x. f x = k) xs)"
  by (induction xs) auto

lemma dict_get_counts:
  "dict_get (feedback_counts_query db now kind ref_id) label 0 = label_count db now kind ref_id label"
proof -
  let ?labels = "map fb_label (feedback_rows db now kind ref_id)"
  have "dict_get (feedback_counts_query db now kind ref_id) label 0
          = (if label \<in> set ?labels then count_list ?labels label else 0)"
    by (simp add: dict_get_def feedback_counts_query_def Let_def map_of_tabulate)
  also have "\<dots> = count_list ?labels label"
    by (simp add: count_list_0_iff)
  also have "\<dots> = label_count db now kind ref_id label"
    by (simp add: label_count_def count_list_map_filter)
  finally show ?thesis .
qed

lemma feedback_score_counts:
  "feedback_score_of (feedback_counts_query db now kind ref_id)
     = real (label_count db now kind ref_id ''useful'') * 2
       - real (label_count db now kind ref_id ''useless'') * 2
       - real (label_count db now kind ref_id ''skip'') * 5"
  by (simp add: feedback_score_of_def dict_get_counts)

lemma score_cluster_frame:
  "items (score_cluster L now wall_clock w c db) = items db"
  "user_feedback (score_cluster L now wall_clock w c db) = user_feedback db"
  by (simp_all add: score_cluster_def set_cluster_score_def Let_def)

lemma score_cluster_spec_frame:
  "cluster_members (score_cluster L now wall_clock w c db) cid = cluster_members db cid"
  "cluster_score_spec L now wall_clock w (score_cluster L now wall_clock w c db) c'
     = cluster_score_spec L now wall_clock w db c'"
  by (simp_all add: cluster_members_def cluster_score_spec_def label_count_def feedback_rows_def
      score_cluster_frame)

lemma score_cluster_ids:
  "map cl_id (clusters (score_cluster L now wall_clock w c db)) = map cl_id (clusters db)"
  by (simp add: score_cluster_def set_cluster_score_def Let_def comp_def)

lemma score_cluster_scored:
  assumes "cluster_members db (cl_id c) \<noteq> []"
      and "r \<in> set (clusters (score_cluster L now wall_clock w c db))"
      and "cl_id r = cl_id c"
  shows "cl_score r = cluster_score_spec L now wall_clock w db c"
  using assms
  by (auto simp: score_cluster_def set_cluster_score_def Let_def cluster_score_spec_def
      feedback_score_counts)

lemma score_cluster_others:
  assumes "r \<in> set (clusters (score_cluster L now wall_clock w c db))"
      and "cl_id r \<noteq> cl_id c"
  shows "r \<in> set (clusters db)"
  using assms
  by (auto simp: score_cluster_def set_cluster_score_def Let_def split: if_splits)


lemma fold_score_frame:
  "cluster_members (fold (score_cluster L now wall_clock w) rows db) cid = cluster_members db cid"
  "cluster_score_spec L now wall_clock w (fold (score_cluster L now wall_clock w) rows db) c
     = cluster_score_spec L now wall_clock w db c"
  "map cl_id (clusters (fold (score_cluster L now wall_clock w) rows db)) = map cl_id (clusters db)"
  by (induction rows arbitrary: db) (simp_all add: score_cluster_spec_frame score_cluster_ids)

lemma fold_score_others:
  "cid \<notin> cl_id ` set rows \<Longrightarrow>
   r \<in> set (clusters (fold (score_cluster L now wall_clock w) rows db)) \<Longrightarrow> cl_id r = cid \<Longrightarrow>
   r \<in> set (clusters db)"
proof (induction rows arbitrary: db)
  case Nil
  then show ?case by simp
next
  case (Cons x xs)
  from Cons.prems have "r \<in> set (clusters (score_cluster L now wall_clock w x db))"
    using Cons.IH[of "score_cluster L now wall_clock w x db"] by simp
  moreover have "cl_id r \<noteq> cl_id x" using Cons.prems by auto
  ultimately show ?case by (rule score_cluster_others)
qed

lemma fold_score_scored:
  "c \<in> set rows \<Longrightarrow> distinct (map cl_id rows) \<Longrightarrow> cluster_members db (cl_id c) \<noteq> [] \<Longrightarrow>
   r \<in> set (clusters (fold (score_cluster L now wall_clock w) rows db)) \<Longrightarrow> cl_id r = cl_id c \<Longrightarrow>
   cl_score r = cluster_score_spec L now wall_clock w db c"
proof (induction rows arbitrary: db)
  case Nil
  then show ?case by simp
next
  case (Cons x xs)
  let ?db' = "score_cluster L now wall_clock w x db"
  from Cons.prems(4) have r: "r \<in> set (clusters (fold (score_cluster L now wall_clock w) xs ?db'))"
    by simp
  show ?case
  proof (cases "c = x")
    case True
    then have "cl_id c \<notin> cl_id ` set xs" using Cons.prems(2) by auto
    from fold_score_others[OF this r Cons.prems(5)]
    have "r \<in> set (clusters ?db')" .
    then show ?thesis
      using score_cluster_scored[of db x r L now wall_clock w] Cons.prems(3,5) True by simp
  next
    case False
    then have c: "c \<in> set xs" using Cons.prems(1) by simp
    have d: "distinct (map cl_id xs)" using Cons.prems(2) by simp
    have m: "cluster_members ?db' (cl_id c) \<noteq> []"
      using Cons.prems(3) by (simp add: score_cluster_spec_frame)
    from Cons.IH[OF c d m r Cons.prems(5)]
    show ?thesis by (simp add: score_cluster_spec_frame)
  qed
qed

text \<open>
  C4.  For every cluster of the window that has at least one member item, the score
  \<open>score_clusters\<close> persists is
  \<open>item_count * 1.0 + distinct_source_count * 2.0 + value_score * 5.0 + freshness_score * 3.0
  + feedback_score\<close>, where \<open>feedback_score\<close> is
  \<open>useful_count * 2 - useless_count * 2 - skip_count * 5\<close> over the feedback rows of the
  trailing 30 days with topic kind \<open>news\<close> and the cluster's id.  Cluster ids are unique
  (the primary key).
\<close>

theorem cluster_score_formula:
  assumes ids: "distinct (map cl_id (clusters db))"
      and c: "c \<in> set (clusters db)"
      and active: "newer_than (cl_last_seen_at c) (now - window_hours (Some hours) * hour)"
      and members: "cluster_members db (cl_id c) \<noteq> []"
  shows "(\<exists>r \<in> set (clusters (score_clusters L now wall_clock hours db)). cl_id r = cl_id c)
       \<and> (\<forall>r \<in> set (clusters (score_clusters L now wall_clock hours db)).
            cl_id r = cl_id c \<longrightarrow>
            (let members = cluster_members db (cl_id c);
                 item_count = length members;
                 distinct_source_count = card (cluster_sources members);
                 value = value_score L (Some (cluster_text_blob members));
                 freshness_score = cluster_freshness wall_clock (window_hours (Some hours)) c;
                 useful_count = label_count db now ''news'' (cl_id c) ''useful'';
                 useless_count = label_count db now ''news'' (cl_id c) ''useless'';
                 skip_count = label_count db now ''news'' (cl_id c) ''skip'';
                 feedback_score = real useful_count * 2 - real useless_count * 2
                                  - real skip_count * 5
             in cl_score r = real item_count * 1.0 + real distinct_source_count * 2.0
                             + value * 5.0 + freshness_score * 3.0 + feedback_score))"
proof -
  let ?w = "window_hours (Some hours)"
  let ?rows = "filter (\<lambda>r. newer_than (cl_last_seen_at r) (now - ?w * hour)) (clusters db)"
  have run: "score_clusters L now wall_clock hours db
               = fold (score_cluster L now wall_clock ?w) ?rows db"
    by (simp add: score_clusters_def Let_def)
  have crow: "c \<in> set ?rows" using c active by simp
  have drow: "distinct (map cl_id ?rows)" using ids by (rule distinct_map_filter)
  have "cl_id c \<in> set (map cl_id (clusters db))" using c by simp
  then have "cl_id c \<in> set (map cl_id (clusters (score_clusters L now wall_clock hours db)))"
    unfolding run fold_score_frame(3) .
  then have ex: "\<exists>r \<in> set (clusters (score_clusters L now wall_clock hours db)). cl_id r = cl_id c"
    by auto
  have all: "\<forall>r \<in> set (clusters (score_clusters L now wall_clock hours db)).
               cl_id r = cl_id c \<longrightarrow> cl_score r = cluster_score_spec L now wall_clock ?w db c"
    unfolding run using fold_score_scored[OF crow drow members] by blast
  show ?thesis
    using ex all unfolding cluster_score_spec_def Let_def by simp
qed

lemma score_db_blob:
  "normalize_text sample_lib (Some (cluster_text_blob (cluster_members score_db 3)))
     = ''model x released a free tool model x release announced''"
  by (simp add: score_db_def cluster_members_def cluster_text_blob_def or_empty_def
      sample_lib_def normalize_text_def ascii_strip_def ascii_lower_def is_space_def)

lemma score_db_value:
  "value_score sample_lib (Some (cluster_text_blob (cluster_members score_db 3))) = 2.5"
  unfolding value_score_def Let_def score_db_blob
  by (simp add: VALUE_SIGNALS_def signal_fires_def sublist_Cons_right)

lemma score_db_members:
  "cluster_members score_db 3 = items score_db" "cluster_members score_db 4 = []"
  by (simp_all add: score_db_def cluster_members_def)

lemma score_db_item_count: "length (items score_db) = 2"
  by (simp add: score_db_def)

lemma score_db_sources:
  "cluster_sources (items score_db) = {''openai.com'', ''example.com''}"
  by (simp add: score_db_def cluster_sources_def it_src_def coalesce_def List.map_filter_simps)

lemma score_db_counts:
  "label_count score_db (1000 * hour) ''news'' 3 ''useful'' = 2"
  "label_count score_db (1000 * hour) ''news'' 3 ''useless'' = 0"
  "label_count score_db (1000 * hour) ''news'' 3 ''skip'' = 1"
  by (simp_all add: label_count_def feedback_rows_def score_db_def hour_def day_def)

lemma score_db_fresh:
  "cluster_freshness (\<lambda>cid. 1000 * hour) 72 (hd (clusters score_db)) = 1 / 2"
  by (simp add: cluster_freshness_def score_db_def hours_since_of_def freshness_score_of_def hour_def)

lemma score_db_hyps:
  "distinct (map cl_id (clusters score_db))"
  "hd (clusters score_db) \<in> set (clusters score_db)"
  "newer_than (cl_last_seen_at (hd (clusters score_db))) (1000 * hour - window_hours (Some 72) * hour)"
  "cluster_members score_db (cl_id (hd (clusters score_db))) \<noteq> []"
  by (simp_all add: score_db_def newer_than_def window_hours_def hour_def cluster_members_def)

lemma two_ids:
  assumes "map cl_id xs = [a, b]" "a \<noteq> b"
  shows "\<exists>x y. xs = [x, y] \<and> cl_id x = a \<and> cl_id y = b"
  using assms by (cases xs; cases "tl xs"; auto)

theorem cluster_score_formula_witness:
  "distinct (map cl_id (clusters score_db))
   \<and> hd (clusters score_db) \<in> set (clusters score_db)
   \<and> cl_id (hd (clusters score_db)) = 3
   \<and> newer_than (cl_last_seen_at (hd (clusters score_db)))
        (1000 * hour - window_hours (Some 72) * hour)
   \<and> cluster_members score_db 3 \<noteq> []
   \<and> map cl_score (filter (\<lambda>r. cl_id r = 3)
         (clusters (score_clusters sample_lib (1000 * hour) (\<lambda>cid. 1000 * hour) 72 score_db)))
       = [19]"
proof -
  let ?db' = "score_clusters sample_lib (1000 * hour) (\<lambda>cid. 1000 * hour) 72 score_db"
  have id3: "cl_id (hd (clusters score_db)) = 3" by (simp add: score_db_def)
  have w: "window_hours (Some 72) = 72" by (simp add: window_hours_def)
  from cluster_score_formula[OF score_db_hyps, of sample_lib "\<lambda>cid. 1000 * hour"]
  have sc: "\<forall>r \<in> set (clusters ?db'). cl_id r = 3 \<longrightarrow> cl_score r = 19"
    unfolding id3 Let_def w score_db_members score_db_sources score_db_counts score_db_fresh
      score_db_value[unfolded score_db_members] score_db_item_count
    by simp
  have "map cl_id (clusters ?db') = [3, 4]"
    unfolding score_clusters_def Let_def fold_score_frame(3) by (simp add: score_db_def)
  then obtain x y where xy: "clusters ?db' = [x, y]" "cl_id x = 3" "cl_id y = 4"
    using two_ids[of "clusters ?db'" 3 4] by auto
  have "cl_score x = 19" using sc xy by simp
  then have "map cl_score (filter (\<lambda>r. cl_id r = 3) (clusters ?db')) = [19]"
    using xy by simp
  then show ?thesis
    using score_db_hyps id3 by simp
qed


section \<open>Link selector\<close>

lemmas sample_simps = sample_lib_def ascii_strip_def ascii_lower_def is_space_def simple_netloc_def
  md5_known_def or_empty_def get_domain_def Let_def

lemma cands_single:
  "collect_candidates sample_lib single_official
     = [\<lparr>url = ''https://openai.com/blog/gpt-5'', domain = ''openai.com''\<rparr>]"
  by (simp add: single_official_def sample_simps)

lemma cands_mixed:
  "collect_candidates sample_lib mixed_links
     = [\<lparr>url = ''https://news.ycombinator.com/item?id=1'', domain = ''news.ycombinator.com''\<rparr>,
        \<lparr>url = ''https://arxiv.org/abs/2601.00001'', domain = ''arxiv.org''\<rparr>,
        \<lparr>url = ''https://github.com/acme/agent'', domain = ''github.com''\<rparr>,
        \<lparr>url = ''https://example.com/post'', domain = ''example.com''\<rparr>,
        \<lparr>url = ''https://openai.com/blog/gpt-5'', domain = ''openai.com''\<rparr>]"
  by (simp add: mixed_links_def sample_simps)

lemma cands_relative:
  "collect_candidates sample_lib relative_links
     = [\<lparr>url = ''/feed/launch'', domain = ''a.example.com''\<rparr>,
        \<lparr>url = ''/news/launch'', domain = ''c.example.com''\<rparr>,
        \<lparr>url = ''/news/launch'', domain = ''b.example.com''\<rparr>,
        \<lparr>url = ''/blog/launch'', domain = ''a.example.com''\<rparr>]"
  by (simp add: relative_links_def sample_simps)

lemmas select_simps = select_cluster_links_def Let_def ordered_candidates_def non_arxiv_of_def
  rank_candidate_def sort_key_of_def stable_hash_def str_int_def link_priority_def
  OFFICIAL_DOMAINS_def CODE_DOMAINS_def PAPER_DOMAINS_def AUTHORITY_DOMAINS_def
  COMMUNITY_DOMAINS_def select_evidence_links_def slice_to_def priority_label_def

lemma select_single:
  "select_cluster_links sample_lib 7 single_official
     = \<lparr>primary_link = ''https://openai.com/blog/gpt-5'',
        evidence_links = [''https://openai.com/blog/gpt-5''],
        debug = \<lparr>candidate_count = 1, filtered_arxiv = True,
                 primary_domain = Some ''openai.com'', primary_priority = Some ''official''\<rparr>\<rparr>"
  unfolding select_cluster_links_def cands_single
  by (simp add: select_simps sample_lib_def md5_known_def)

lemma select_mixed:
  "select_cluster_links sample_lib 7 mixed_links
     = \<lparr>primary_link = ''https://openai.com/blog/gpt-5'',
        evidence_links = [''https://openai.com/blog/gpt-5'', ''https://github.com/acme/agent'',
                          ''https://example.com/post''],
        debug = \<lparr>candidate_count = 5, filtered_arxiv = True,
                 primary_domain = Some ''openai.com'', primary_priority = Some ''official''\<rparr>\<rparr>"
  unfolding select_cluster_links_def cands_mixed
  by (simp add: select_simps sample_lib_def md5_known_def)

lemma select_relative:
  "select_cluster_links sample_lib 1 relative_links
     = \<lparr>primary_link = ''/feed/launch'',
        evidence_links = [''/feed/launch'', ''/news/launch'', ''/blog/launch''],
        debug = \<lparr>candidate_count = 4, filtered_arxiv = True,
                 primary_domain = Some ''a.example.com'', primary_priority = Some ''community''\<rparr>\<rparr>"
  unfolding select_cluster_links_def cands_relative
  by (simp add: select_simps sample_lib_def md5_known_def)

subsection \<open>collect_candidates and ordering\<close>

lemma get_domain_md5: "get_domain (L\<lparr>md5_int := H\<rparr>) u = get_domain L u"
  by (simp add: get_domain_def split: option.splits)

lemma collect_candidates_md5:
  "collect_candidates (L\<lparr>md5_int := H\<rparr>) link_items = collect_candidates L link_items"
  by (induction link_items) (simp_all add: get_domain_md5 Let_def)

lemma set_ordered_candidates:
  "set (ordered_candidates L cid cands)
     = rank_candidate L (str_int cid) `
         set (if non_arxiv_of cands \<noteq> [] then non_arxiv_of cands else cands)"
  by (simp add: ordered_candidates_def Let_def)

lemma ordered_candidates_nonempty:
  "cands \<noteq> [] \<Longrightarrow> ordered_candidates L cid cands \<noteq> []"
proof
  assume ne: "cands \<noteq> []" and "ordered_candidates L cid cands = []"
  then have "set (ordered_candidates L cid cands) = {}" by simp
  then show False
    unfolding set_ordered_candidates using ne by (auto split: if_splits)
qed

lemma ordered_candidates_sorted:
  "sorted (map sort_key_of (ordered_candidates L cid cands))"
  by (simp add: ordered_candidates_def Let_def)

lemma ordered_candidates_md5:
  assumes "\<forall>c \<in> set cands. H (str_int cid @ ''|'' @ url c) = md5_int L (str_int cid @ ''|'' @ url c)"
  shows "ordered_candidates (L\<lparr>md5_int := H\<rparr>) cid cands = ordered_candidates L cid cands"
proof -
  have "rank_candidate (L\<lparr>md5_int := H\<rparr>) (str_int cid) c = rank_candidate L (str_int cid) c"
    if "c \<in> set cands" for c
    using that assms by (simp add: rank_candidate_def stable_hash_def)
  note rc = this
  have m1: "map (rank_candidate (L\<lparr>md5_int := H\<rparr>) (str_int cid)) cands
               = map (rank_candidate L (str_int cid)) cands"
    by (rule map_cong[OF refl]) (simp add: rc)
  have m2: "map (rank_candidate (L\<lparr>md5_int := H\<rparr>) (str_int cid)) (non_arxiv_of cands)
               = map (rank_candidate L (str_int cid)) (non_arxiv_of cands)"
    by (rule map_cong[OF refl]) (simp add: rc non_arxiv_of_def)
  show ?thesis
    by (simp add: ordered_candidates_def Let_def m1 m2)
qed

text \<open>
  C1.  The selection is a function of the cluster id and the candidate list: every
  candidate's tie-break key is the stable hash of its URL seeded with the cluster id, its
  priority is the tier of its domain, the candidates are ordered by \<open>(-priority, tie)\<close>, and
  the hash enters the result only through its values at the strings \<open>cluster_id|url\<close> of the
  candidates: with any other hash function that agrees there, the whole result is the same.
\<close>

theorem select_links_deterministic:
  "(\<forall>c \<in> set (ordered_candidates L cluster_id (collect_candidates L link_items)).
      tie c = stable_hash L (url c) (str_int cluster_id)
      \<and> priority c = link_priority (domain c))
   \<and> sorted (map sort_key_of (ordered_candidates L cluster_id (collect_candidates L link_items)))
   \<and> ((\<forall>c \<in> set (collect_candidates L link_items).
          H (str_int cluster_id @ ''|'' @ url c) = md5_int L (str_int cluster_id @ ''|'' @ url c))
        \<longrightarrow> select_cluster_links (L\<lparr>md5_int := H\<rparr>) cluster_id link_items
              = select_cluster_links L cluster_id link_items)"
proof (intro conjI impI)
  show "\<forall>c \<in> set (ordered_candidates L cluster_id (collect_candidates L link_items)).
      tie c = stable_hash L (url c) (str_int cluster_id)
      \<and> priority c = link_priority (domain c)"
    unfolding set_ordered_candidates by (auto simp: rank_candidate_def)
  show "sorted (map sort_key_of (ordered_candidates L cluster_id (collect_candidates L link_items)))"
    by (rule ordered_candidates_sorted)
  assume "\<forall>c \<in> set (collect_candidates L link_items).
          H (str_int cluster_id @ ''|'' @ url c) = md5_int L (str_int cluster_id @ ''|'' @ url c)"
  then have "ordered_candidates (L\<lparr>md5_int := H\<rparr>) cluster_id (collect_candidates L link_items)
               = ordered_candidates L cluster_id (collect_candidates L link_items)"
    by (rule ordered_candidates_md5)
  then show "select_cluster_links (L\<lparr>md5_int := H\<rparr>) cluster_id link_items
              = select_cluster_links L cluster_id link_items"
    unfolding select_cluster_links_def collect_candidates_md5 Let_def by simp
qed

subsection \<open>evidence selection\<close>

lemma by_domain_extends:
  "\<exists>ext. fst (evidence_by_domain m cs (ev, seen)) = ev @ ext \<and> set ext \<subseteq> url ` set cs"
proof (induction cs arbitrary: ev seen)
  case Nil
  then show ?case by simp
next
  case (Cons c cs)
  show ?case
  proof (cases "url c \<in> set ev \<or> domain c \<in> seen")
    case True
    then have "evidence_by_domain m (c # cs) (ev, seen) = evidence_by_domain m cs (ev, seen)"
      by auto
    then show ?thesis using Cons.IH[of ev seen] by auto
  next
    case False
    show ?thesis
    proof (cases "m \<le> int (length (ev @ [url c]))")
      case True
      then have "fst (evidence_by_domain m (c # cs) (ev, seen)) = ev @ [url c]"
        using False by (simp add: Let_def)
      then show ?thesis by simp
    next
      case stop: False
      then have "evidence_by_domain m (c # cs) (ev, seen)
                   = evidence_by_domain m cs (ev @ [url c], insert (domain c) seen)"
        using False by (simp add: Let_def)
      moreover obtain ext where
        "fst (evidence_by_domain m cs (ev @ [url c], insert (domain c) seen)) = (ev @ [url c]) @ ext"
        "set ext \<subseteq> url ` set cs"
        using Cons.IH[of "ev @ [url c]" "insert (domain c) seen"] by blast
      ultimately have "fst (evidence_by_domain m (c # cs) (ev, seen)) = ev @ (url c # ext)"
        and "set (url c # ext) \<subseteq> url ` set (c # cs)"
        by auto
      then show ?thesis by blast
    qed
  qed
qed

lemma by_domain_distinct:
  "distinct ev \<Longrightarrow> distinct (fst (evidence_by_domain m cs (ev, seen)))"
  by (induction cs arbitrary: ev seen) (auto simp: Let_def)

lemma fill_extends:
  "\<exists>ext. evidence_fill m cs ev = ev @ ext \<and> set ext \<subseteq> url ` set cs"
proof (induction cs arbitrary: ev)
  case Nil
  then show ?case by simp
next
  case (Cons c cs)
  show ?case
  proof (cases "url c \<in> set ev")
    case True
    then show ?thesis using Cons.IH[of ev] by auto
  next
    case False
    show ?thesis
    proof (cases "m \<le> int (length (ev @ [url c]))")
      case True
      then have "evidence_fill m (c # cs) ev = ev @ [url c]"
        using False by (simp add: Let_def)
      then show ?thesis by simp
    next
      case stop: False
      then have "evidence_fill m (c # cs) ev = evidence_fill m cs (ev @ [url c])"
        using False by (simp add: Let_def)
      moreover obtain ext where
        "evidence_fill m cs (ev @ [url c]) = (ev @ [url c]) @ ext" "set ext \<subseteq> url ` set cs"
        using Cons.IH[of "ev @ [url c]"] by blast
      ultimately have "evidence_fill m (c # cs) ev = ev @ (url c # ext)"
        and "set (url c # ext) \<subseteq> url ` set (c # cs)"
        by auto
      then show ?thesis by blast
    qed
  qed
qed

lemma fill_distinct: "distinct ev \<Longrightarrow> distinct (evidence_fill m cs ev)"
  by (induction cs arbitrary: ev) (auto simp: Let_def)

lemma by_domain_head:
  "\<exists>ext. fst (evidence_by_domain m (c # cs) ([], {})) = url c # ext \<and> set ext \<subseteq> url ` set cs"
proof (cases "m \<le> 1")
  case True
  then show ?thesis by (simp add: Let_def)
next
  case False
  then have "evidence_by_domain m (c # cs) ([], {}) = evidence_by_domain m cs ([url c], {domain c})"
    by (simp add: Let_def)
  then show ?thesis using by_domain_extends[of m cs "[url c]" "{domain c}"] by auto
qed

lemma select_evidence_unfold:
  "select_evidence_links cs m n
     = slice_to (if int (length (fst (evidence_by_domain m cs ([], {})))) < m
                 then evidence_fill m cs (fst (evidence_by_domain m cs ([], {})))
                 else fst (evidence_by_domain m cs ([], {}))) n"
  by (simp add: select_evidence_links_def Let_def split: prod.splits)

lemma set_slice_to_str: "set (slice_to xs n) \<subseteq> set xs"
  by (auto simp: slice_to_def dest: in_set_takeD)

lemma distinct_slice_to: "distinct xs \<Longrightarrow> distinct (slice_to xs n)"
  by (simp add: slice_to_def)

lemma slice_to_Cons: "0 < n \<Longrightarrow> \<exists>ys. slice_to (x # xs) n = x # ys"
  by (cases "nat n") (auto simp: slice_to_def)

lemma select_evidence_head:
  "\<exists>ext. select_evidence_links (c # cs) 3 5 = url c # ext"
proof -
  obtain e1 where e1: "fst (evidence_by_domain 3 (c # cs) ([], {})) = url c # e1"
    using by_domain_head[of 3 c cs] by blast
  obtain e2 where e2: "evidence_fill 3 (c # cs) (url c # e1) = (url c # e1) @ e2"
    using fill_extends[of 3 "c # cs" "url c # e1"] by blast
  show ?thesis
  proof (cases "int (length (url c # e1)) < 3")
    case True
    have "select_evidence_links (c # cs) 3 5 = slice_to (url c # (e1 @ e2)) 5"
      by (subst select_evidence_unfold, subst e1, subst e1, subst e1, subst e2)
         (simp only: True if_True append_Cons)
    then show ?thesis using slice_to_Cons[of 5 "url c" "e1 @ e2"] by auto
  next
    case False
    have "select_evidence_links (c # cs) 3 5 = slice_to (url c # e1) 5"
      by (subst select_evidence_unfold, subst e1, subst e1)
         (simp only: False if_False)
    then show ?thesis using slice_to_Cons[of 5 "url c" e1] by auto
  qed
qed

lemma select_evidence_distinct: "distinct (select_evidence_links cs m n)"
proof -
  have d1: "distinct (fst (evidence_by_domain m cs ([], {})))"
    by (rule by_domain_distinct) simp
  then have d2: "distinct (evidence_fill m cs (fst (evidence_by_domain m cs ([], {}))))"
    by (rule fill_distinct)
  show ?thesis
    unfolding select_evidence_unfold using d1 d2 by (intro distinct_slice_to) simp
qed

lemma select_evidence_subset: "set (select_evidence_links cs m n) \<subseteq> url ` set cs"
proof -
  let ?e1 = "fst (evidence_by_domain m cs ([], {}))"
  have s1: "set ?e1 \<subseteq> url ` set cs"
    using by_domain_extends[of m cs "[]" "{}"] by auto
  obtain e2 where e2: "evidence_fill m cs ?e1 = ?e1 @ e2" "set e2 \<subseteq> url ` set cs"
    using fill_extends[of m cs ?e1] by blast
  have s2: "set (evidence_fill m cs ?e1) \<subseteq> url ` set cs"
    unfolding e2(1) using s1 e2(2) by simp
  have "set (if int (length ?e1) < m then evidence_fill m cs ?e1 else ?e1) \<subseteq> url ` set cs"
    using s1 s2 by (cases "int (length ?e1) < m") simp_all
  then show ?thesis
    unfolding select_evidence_unfold by (rule order_trans[OF set_slice_to_str])
qed

lemma select_evidence_length: "0 \<le> n \<Longrightarrow> int (length (select_evidence_links cs m n)) \<le> n"
  unfolding select_evidence_unfold by (simp add: slice_to_def)

text \<open>While every candidate's domain is a function \<open>d\<close> of its URL, the first loop keeps the
  domains of the links it has picked apart.\<close>

lemma by_domain_domains:
  assumes "\<forall>c \<in> set cs. domain c = d (url c)"
      and "seen = d ` set ev" and "distinct (map d ev)"
  shows "distinct (map d (fst (evidence_by_domain m cs (ev, seen))))"
  using assms
proof (induction cs arbitrary: ev seen)
  case Nil
  then show ?case by simp
next
  case (Cons c cs)
  have d: "domain c = d (url c)" using Cons.prems(1) by simp
  have rest: "\<forall>c \<in> set cs. domain c = d (url c)" using Cons.prems(1) by simp
  show ?case
  proof (cases "url c \<in> set ev \<or> domain c \<in> seen")
    case True
    then have "evidence_by_domain m (c # cs) (ev, seen) = evidence_by_domain m cs (ev, seen)"
      by auto
    then show ?thesis using Cons.IH[OF rest Cons.prems(2,3)] by simp
  next
    case False
    have new: "distinct (map d (ev @ [url c]))"
      using False Cons.prems(2,3) d by auto
    have seen': "insert (domain c) seen = d ` set (ev @ [url c])"
      using Cons.prems(2) d by auto
    show ?thesis
    proof (cases "m \<le> int (length (ev @ [url c]))")
      case True
      then have "fst (evidence_by_domain m (c # cs) (ev, seen)) = ev @ [url c]"
        using False by (simp add: Let_def)
      then show ?thesis using new by simp
    next
      case stop: False
      then have "evidence_by_domain m (c # cs) (ev, seen)
                   = evidence_by_domain m cs (ev @ [url c], insert (domain c) seen)"
        using False by (simp add: Let_def)
      then show ?thesis using Cons.IH[OF rest seen' new] by simp
    qed
  qed
qed

lemma by_domain_enough:
  assumes "\<forall>c \<in> set cs. domain c = d (url c)" and "seen = d ` set ev"
  shows "min m (int (length ev) + int (card (domain ` set cs - seen)))
           \<le> int (length (fst (evidence_by_domain m cs (ev, seen))))"
  using assms
proof (induction cs arbitrary: ev seen)
  case Nil
  then show ?case by simp
next
  case (Cons c cs)
  have d: "domain c = d (url c)" using Cons.prems(1) by simp
  have rest: "\<forall>c \<in> set cs. domain c = d (url c)" using Cons.prems(1) by simp
  show ?case
  proof (cases "url c \<in> set ev \<or> domain c \<in> seen")
    case True
    then have known: "domain c \<in> seen" using d Cons.prems(2) by auto
    have eq: "evidence_by_domain m (c # cs) (ev, seen) = evidence_by_domain m cs (ev, seen)"
      using True by auto
    have "domain ` set (c # cs) - seen = domain ` set cs - seen" using known by auto
    then show ?thesis using Cons.IH[OF rest Cons.prems(2)] eq by simp
  next
    case False
    have seen': "insert (domain c) seen = d ` set (ev @ [url c])"
      using Cons.prems(2) d by auto
    show ?thesis
    proof (cases "m \<le> int (length (ev @ [url c]))")
      case True
      then have "fst (evidence_by_domain m (c # cs) (ev, seen)) = ev @ [url c]"
        using False by (simp add: Let_def)
      then show ?thesis using True by simp
    next
      case stop: False
      then have eq: "evidence_by_domain m (c # cs) (ev, seen)
                   = evidence_by_domain m cs (ev @ [url c], insert (domain c) seen)"
        using False by (simp add: Let_def)
      have "domain ` set (c # cs) - seen
              = insert (domain c) (domain ` set cs - insert (domain c) seen)"
        using False by auto
      then have "card (domain ` set (c # cs) - seen)
                   = Suc (card (domain ` set cs - insert (domain c) seen))"
        by simp
      then show ?thesis using Cons.IH[OF rest seen'] eq by simp
    qed
  qed
qed

lemma by_domain_at_most:
  "int (length (fst (evidence_by_domain m cs (ev, seen)))) \<le> max (int (length ev) + 1) m"
proof (induction cs arbitrary: ev seen)
  case Nil
  then show ?case by simp
next
  case (Cons c cs)
  show ?case
  proof (cases "url c \<in> set ev \<or> domain c \<in> seen")
    case True
    then have "evidence_by_domain m (c # cs) (ev, seen) = evidence_by_domain m cs (ev, seen)"
      by auto
    then show ?thesis using Cons.IH[of ev seen] by simp
  next
    case False
    show ?thesis
    proof (cases "m \<le> int (length (ev @ [url c]))")
      case True
      then have "fst (evidence_by_domain m (c # cs) (ev, seen)) = ev @ [url c]"
        using False by (simp add: Let_def)
      then show ?thesis by simp
    next
      case stop: False
      then have eq: "evidence_by_domain m (c # cs) (ev, seen)
                   = evidence_by_domain m cs (ev @ [url c], insert (domain c) seen)"
        using False by (simp add: Let_def)
      show ?thesis
        using Cons.IH[of "ev @ [url c]" "insert (domain c) seen"] stop unfolding eq by simp
    qed
  qed
qed

lemma select_evidence_domains:
  fixes cs :: "'a candidate_scheme list"
  assumes enough: "3 \<le> card (domain ` set cs)"
      and fn: "\<forall>c \<in> set cs. \<forall>c' \<in> set cs. url c = url c' \<longrightarrow> domain c = domain c'"
  shows "length (select_evidence_links cs 3 5) = 3"
    and "\<forall>c \<in> set cs. \<forall>c' \<in> set cs.
           url c \<in> set (select_evidence_links cs 3 5)
           \<and> url c' \<in> set (select_evidence_links cs 3 5) \<and> url c \<noteq> url c'
           \<longrightarrow> domain c \<noteq> domain c'"
proof -
  define d where "d u = domain (SOME c. c \<in> set cs \<and> url c = u)" for u
  have d: "\<forall>c \<in> set cs. domain c = d (url c)"
  proof
    fix c assume c: "c \<in> set cs"
    then have "(SOME c'. c' \<in> set cs \<and> url c' = url c) \<in> set cs
               \<and> url (SOME c'. c' \<in> set cs \<and> url c' = url c) = url c"
      by (intro someI[of "\<lambda>c'. c' \<in> set cs \<and> url c' = url c" c]) simp
    then show "domain c = d (url c)" using fn c unfolding d_def by metis
  qed
  let ?e1 = "fst (evidence_by_domain 3 cs ([], {}))"
  have dist: "distinct (map d ?e1)"
    by (rule by_domain_domains[OF d]) simp_all
  have "min 3 (int (length ([]::string list)) + int (card (domain ` set cs - {})))
          \<le> int (length ?e1)"
    by (rule by_domain_enough[OF d]) simp
  then have ge: "3 \<le> int (length ?e1)" using enough by simp
  have "int (length ?e1) \<le> max (int (length ([]::string list)) + 1) 3"
    by (rule by_domain_at_most)
  then have len: "length ?e1 = 3" using ge by simp
  have sel: "select_evidence_links cs 3 5 = ?e1"
    unfolding select_evidence_unfold using len by (simp add: slice_to_def)
  show "length (select_evidence_links cs 3 5) = 3" using sel len by simp
  show "\<forall>c \<in> set cs. \<forall>c' \<in> set cs.
           url c \<in> set (select_evidence_links cs 3 5)
           \<and> url c' \<in> set (select_evidence_links cs 3 5) \<and> url c \<noteq> url c'
           \<longrightarrow> domain c \<noteq> domain c'"
  proof (intro ballI impI)
    fix c c' assume c: "c \<in> set cs" and c': "c' \<in> set cs"
      and h: "url c \<in> set (select_evidence_links cs 3 5)
           \<and> url c' \<in> set (select_evidence_links cs 3 5) \<and> url c \<noteq> url c'"
    have "inj_on d (set ?e1)" using dist by (simp add: distinct_map)
    then have "d (url c) \<noteq> d (url c')" using h unfolding sel by (auto dest: inj_onD)
    then show "domain c \<noteq> domain c'" using d c c' by simp
  qed
qed

lemma rank_candidate_fields:
  "url (rank_candidate L seed c) = url c"
  "domain (rank_candidate L seed c) = domain c"
  "priority (rank_candidate L seed c) = link_priority (domain c)"
  "tie (rank_candidate L seed c) = stable_hash L (url c) seed"
  by (simp_all add: rank_candidate_def)

lemma select_cluster_links_nonempty:
  assumes "collect_candidates L link_items \<noteq> []"
  shows "primary_link (select_cluster_links L cid link_items)
           = url (hd (ordered_candidates L cid (collect_candidates L link_items)))"
    and "evidence_links (select_cluster_links L cid link_items)
           = select_evidence_links (ordered_candidates L cid (collect_candidates L link_items)) 3 5"
    and "debug (select_cluster_links L cid link_items)
           = \<lparr>candidate_count = length (collect_candidates L link_items),
              filtered_arxiv = (non_arxiv_of (collect_candidates L link_items) \<noteq> []),
              primary_domain = Some (domain (hd (ordered_candidates L cid
                                  (collect_candidates L link_items)))),
              primary_priority = Some (priority_label (priority (hd (ordered_candidates L cid
                                  (collect_candidates L link_items)))))\<rparr>"
proof -
  let ?o = "ordered_candidates L cid (collect_candidates L link_items)"
  have "?o \<noteq> []" using assms by (rule ordered_candidates_nonempty)
  then obtain c rest where o: "?o = c # rest" by (cases ?o) auto
  show "primary_link (select_cluster_links L cid link_items) = url (hd ?o)"
    using assms by (simp add: select_cluster_links_def Let_def o)
  show "evidence_links (select_cluster_links L cid link_items) = select_evidence_links ?o 3 5"
    using assms by (simp add: select_cluster_links_def Let_def)
  show "debug (select_cluster_links L cid link_items)
           = \<lparr>candidate_count = length (collect_candidates L link_items),
              filtered_arxiv = (non_arxiv_of (collect_candidates L link_items) \<noteq> []),
              primary_domain = Some (domain (hd ?o)),
              primary_priority = Some (priority_label (priority (hd ?o)))\<rparr>"
    using assms by (simp add: select_cluster_links_def Let_def o)
qed

text \<open>
  C2 (amended).  For a non-empty candidate list the evidence links start with the primary
  link and hold no URL twice, so the primary link is among them exactly once; they are URLs
  of the ordered candidates, at most five.  When the ordered candidates carry at least three
  distinct domains and candidates with the same URL carry the same domain, there are exactly
  three evidence links and no two of them share a domain.
\<close>

theorem evidence_links_shape:
  assumes "collect_candidates L link_items \<noteq> []"
  shows "let r = select_cluster_links L cluster_id link_items;
             ordered = ordered_candidates L cluster_id (collect_candidates L link_items);
             ev = evidence_links r
         in ev \<noteq> [] \<and> hd ev = primary_link r \<and> distinct ev
            \<and> set ev \<subseteq> url ` set ordered \<and> length ev \<le> 5
            \<and> (3 \<le> card (domain ` set ordered)
                 \<and> (\<forall>c \<in> set ordered. \<forall>c' \<in> set ordered.
                       url c = url c' \<longrightarrow> domain c = domain c')
                \<longrightarrow> length ev = 3
                    \<and> (\<forall>c \<in> set ordered. \<forall>c' \<in> set ordered.
                          url c \<in> set ev \<and> url c' \<in> set ev \<and> url c \<noteq> url c'
                          \<longrightarrow> domain c \<noteq> domain c'))"
proof -
  let ?o = "ordered_candidates L cluster_id (collect_candidates L link_items)"
  let ?ev = "select_evidence_links ?o 3 5"
  have "?o \<noteq> []" using assms by (rule ordered_candidates_nonempty)
  then obtain c rest where o: "?o = c # rest" by (cases ?o) auto
  obtain ext where ext: "?ev = url c # ext"
    using select_evidence_head[of c rest] unfolding o by blast
  have a: "?ev \<noteq> []" using ext by simp
  have b: "hd ?ev = url (hd ?o)" using ext o by simp
  have c: "distinct ?ev" by (rule select_evidence_distinct)
  have d: "set ?ev \<subseteq> url ` set ?o" by (rule select_evidence_subset)
  have "int (length ?ev) \<le> 5" by (rule select_evidence_length) simp
  then have e: "length ?ev \<le> 5" by simp
  have f: "3 \<le> card (domain ` set ?o)
             \<and> (\<forall>c \<in> set ?o. \<forall>c' \<in> set ?o. url c = url c' \<longrightarrow> domain c = domain c')
           \<longrightarrow> length ?ev = 3
               \<and> (\<forall>c \<in> set ?o. \<forall>c' \<in> set ?o.
                     url c \<in> set ?ev \<and> url c' \<in> set ?ev \<and> url c \<noteq> url c'
                     \<longrightarrow> domain c \<noteq> domain c')"
    using select_evidence_domains[of ?o] by blast
  show ?thesis
    unfolding Let_def select_cluster_links_nonempty[OF assms]
    using a b c d e f by (intro conjI)
qed

lemma length_ordered_candidates:
  "length (ordered_candidates L cid cands)
     = (if non_arxiv_of cands \<noteq> [] then length (non_arxiv_of cands) else length cands)"
  by (simp add: ordered_candidates_def Let_def)

lemma ordered_candidates_ranked:
  "x \<in> set (ordered_candidates L cid cands) \<Longrightarrow>
     priority x = link_priority (domain x) \<and> tie x = stable_hash L (url x) (str_int cid)"
  unfolding set_ordered_candidates by (auto simp: rank_candidate_def)

lemma ordered_head_best:
  assumes "ordered_candidates L cid cands = c # rest" and "c' \<in> set (c # rest)"
  shows "link_priority (domain c') \<le> link_priority (domain c)"
proof -
  have srt: "sorted (map sort_key_of (c # rest))"
    using ordered_candidates_sorted[of L cid cands] assms(1) by simp
  have pr: "priority x = link_priority (domain x)" if "x \<in> set (c # rest)" for x
    using that ordered_candidates_ranked[of x L cid cands] assms(1) by simp
  show ?thesis
  proof (cases "c' = c")
    case True
    then show ?thesis by simp
  next
    case False
    then have "c' \<in> set rest" using assms(2) by simp
    then have "sort_key_of c \<le> sort_key_of c'" using srt by auto
    then have "- priority c \<le> - priority c'"
      by (auto simp: sort_key_of_def less_eq_prod_def)
    then show ?thesis using pr[of c] pr[of c'] assms(2) by simp
  qed
qed

lemma priority_label_tier:
  "priority_label (link_priority d)
     = (if d \<in> OFFICIAL_DOMAINS then ''official''
        else if d \<in> CODE_DOMAINS \<or> d \<in> PAPER_DOMAINS then ''code_or_paper''
        else if d \<in> AUTHORITY_DOMAINS then ''authority''
        else ''community'')"
  by (simp add: priority_label_def link_priority_def)

text \<open>
  C9 (amended).  The debug output records the number of candidates, and a flag that is true
  exactly when some candidate has a domain other than \<open>arxiv.org\<close>, that is, when the
  selection is made from the list without \<open>arxiv.org\<close> rather than from the fallback; it is
  true whenever the exclusion removed a candidate.  For a non-empty candidate list it also
  records the domain of the candidate whose URL is the primary link and the label of that
  domain's tier, which no ordered candidate exceeds; for an empty list it records neither.
\<close>

theorem select_links_debug:
  "let cands = collect_candidates L link_items;
       r = select_cluster_links L cluster_id link_items;
       ordered = ordered_candidates L cluster_id cands
   in candidate_count (debug r) = length cands
      \<and> filtered_arxiv (debug r) = (\<exists>c \<in> set cands. domain c \<noteq> ''arxiv.org'')
      \<and> (length ordered < length cands \<longrightarrow> filtered_arxiv (debug r))
      \<and> (cands = [] \<longrightarrow> primary_link r = [] \<and> primary_domain (debug r) = None
                          \<and> primary_priority (debug r) = None)
      \<and> (cands \<noteq> [] \<longrightarrow>
            (\<exists>c \<in> set ordered.
                primary_link r = url c
                \<and> primary_domain (debug r) = Some (domain c)
                \<and> primary_priority (debug r)
                    = Some (if domain c \<in> OFFICIAL_DOMAINS then ''official''
                            else if domain c \<in> CODE_DOMAINS \<or> domain c \<in> PAPER_DOMAINS
                              then ''code_or_paper''
                            else if domain c \<in> AUTHORITY_DOMAINS then ''authority''
                            else ''community'')
                \<and> (\<forall>c' \<in> set ordered. link_priority (domain c') \<le> link_priority (domain c))))"
proof -
  let ?cands = "collect_candidates L link_items"
  let ?r = "select_cluster_links L cluster_id link_items"
  let ?o = "ordered_candidates L cluster_id ?cands"
  have flag_def: "(non_arxiv_of ?cands \<noteq> []) = (\<exists>c \<in> set ?cands. domain c \<noteq> ''arxiv.org'')"
    by (auto simp: non_arxiv_of_def filter_empty_conv)
  have count: "candidate_count (debug ?r) = length ?cands"
    by (cases "?cands = []") (simp_all add: select_cluster_links_def Let_def)
  have flag: "filtered_arxiv (debug ?r) = (\<exists>c \<in> set ?cands. domain c \<noteq> ''arxiv.org'')"
  proof (cases "?cands = []")
    case True
    then show ?thesis by (simp add: select_cluster_links_def Let_def)
  next
    case False
    then show ?thesis
      unfolding select_cluster_links_nonempty(3)[OF False] using flag_def by simp
  qed
  have removed: "length ?o < length ?cands \<longrightarrow> filtered_arxiv (debug ?r)"
  proof
    assume "length ?o < length ?cands"
    then have "non_arxiv_of ?cands \<noteq> []"
      unfolding length_ordered_candidates by (auto split: if_splits)
    then show "filtered_arxiv (debug ?r)" using flag flag_def by simp
  qed
  have empty: "?cands = [] \<longrightarrow> primary_link ?r = [] \<and> primary_domain (debug ?r) = None
                          \<and> primary_priority (debug ?r) = None"
    by (simp add: select_cluster_links_def Let_def)
  have nonempty: "?cands \<noteq> [] \<longrightarrow>
            (\<exists>c \<in> set ?o.
                primary_link ?r = url c
                \<and> primary_domain (debug ?r) = Some (domain c)
                \<and> primary_priority (debug ?r)
                    = Some (if domain c \<in> OFFICIAL_DOMAINS then ''official''
                            else if domain c \<in> CODE_DOMAINS \<or> domain c \<in> PAPER_DOMAINS
                              then ''code_or_paper''
                            else if domain c \<in> AUTHORITY_DOMAINS then ''authority''
                            else ''community'')
                \<and> (\<forall>c' \<in> set ?o. link_priority (domain c') \<le> link_priority (domain c)))"
  proof
    assume ne: "?cands \<noteq> []"
    then have "?o \<noteq> []" by (rule ordered_candidates_nonempty)
    then obtain c rest where o: "?o = c # rest" by (cases ?o) auto
    have pc: "priority c = link_priority (domain c)"
      using ordered_candidates_ranked[of c L cluster_id ?cands] o by simp
    have p1: "primary_link ?r = url c"
      unfolding select_cluster_links_nonempty(1)[OF ne] o by simp
    have p2: "primary_domain (debug ?r) = Some (domain c)"
      unfolding select_cluster_links_nonempty(3)[OF ne] o by simp
    have p3: "primary_priority (debug ?r) = Some (priority_label (link_priority (domain c)))"
      unfolding select_cluster_links_nonempty(3)[OF ne] o using pc by simp
    have p4: "\<forall>c' \<in> set ?o. link_priority (domain c') \<le> link_priority (domain c)"
      using ordered_head_best[OF o] unfolding o by blast
    have "c \<in> set ?o" unfolding o by simp
    then show "\<exists>c \<in> set ?o.
                primary_link ?r = url c
                \<and> primary_domain (debug ?r) = Some (domain c)
                \<and> primary_priority (debug ?r)
                    = Some (if domain c \<in> OFFICIAL_DOMAINS then ''official''
                            else if domain c \<in> CODE_DOMAINS \<or> domain c \<in> PAPER_DOMAINS
                              then ''code_or_paper''
                            else if domain c \<in> AUTHORITY_DOMAINS then ''authority''
                            else ''community'')
                \<and> (\<forall>c' \<in> set ?o. link_priority (domain c') \<le> link_priority (domain c))"
      using p1 p2 p3[unfolded priority_label_tier] p4 by blast
  qed
  show ?thesis
    unfolding Let_def using count flag removed empty nonempty by (intro conjI)
qed

lemma cands_arxiv:
  "collect_candidates sample_lib arxiv_only
     = [\<lparr>url = ''https://arxiv.org/abs/2601.00001'', domain = ''arxiv.org''\<rparr>]"
  by (simp add: arxiv_only_def sample_simps)

lemma select_arxiv:
  "select_cluster_links sample_lib 7 arxiv_only
     = \<lparr>primary_link = ''https://arxiv.org/abs/2601.00001'',
        evidence_links = [''https://arxiv.org/abs/2601.00001''],
        debug = \<lparr>candidate_count = 1, filtered_arxiv = False,
                 primary_domain = Some ''arxiv.org'', primary_priority = Some ''code_or_paper''\<rparr>\<rparr>"
  unfolding select_cluster_links_def cands_arxiv
  by (simp add: select_simps sample_lib_def md5_known_def)

lemma select_nothing:
  "select_cluster_links sample_lib 7 []
     = \<lparr>primary_link = [], evidence_links = [],
        debug = \<lparr>candidate_count = 0, filtered_arxiv = False,
                 primary_domain = None, primary_priority = None\<rparr>\<rparr>"
  by (simp add: select_cluster_links_def)

lemma ordered_mixed:
  "ordered_candidates sample_lib 7 (collect_candidates sample_lib mixed_links)
     = [\<lparr>url = ''https://openai.com/blog/gpt-5'', domain = ''openai.com'', priority = 4,
         tie = 183080966365558527583683513392560694644\<rparr>,
        \<lparr>url = ''https://github.com/acme/agent'', domain = ''github.com'', priority = 3,
         tie = 121444118812941656718497817782485869521\<rparr>,
        \<lparr>url = ''https://example.com/post'', domain = ''example.com'', priority = 1,
         tie = 117335713102682497935899320181177930118\<rparr>,
        \<lparr>url = ''https://news.ycombinator.com/item?id=1'', domain = ''news.ycombinator.com'',
         priority = 1, tie = 334687401202719539407795161039231389834\<rparr>]"
  unfolding cands_mixed
  by (simp add: select_simps sample_lib_def md5_known_def)

lemma ordered_mixed_other:
  "list_all (\<lambda>c. other_md5 (str_int 7 @ ''|'' @ url c)
                   = md5_int sample_lib (str_int 7 @ ''|'' @ url c))
     (collect_candidates sample_lib mixed_links)"
  unfolding cands_mixed
  by (simp add: other_md5_def sample_lib_def str_int_def)

theorem select_links_deterministic_witness:
  "list_all (\<lambda>c. other_md5 (str_int 7 @ ''|'' @ url c)
                   = md5_int sample_lib (str_int 7 @ ''|'' @ url c))
     (collect_candidates sample_lib mixed_links)
   \<and> other_md5 ''1|/feed/launch'' \<noteq> md5_int sample_lib ''1|/feed/launch''
   \<and> select_cluster_links (sample_lib\<lparr>md5_int := other_md5\<rparr>) 7 mixed_links
       = select_cluster_links sample_lib 7 mixed_links
   \<and> primary_link (select_cluster_links sample_lib 7 mixed_links)
       = ''https://openai.com/blog/gpt-5''
   \<and> evidence_links (select_cluster_links sample_lib 7 mixed_links)
       = [''https://openai.com/blog/gpt-5'', ''https://github.com/acme/agent'',
          ''https://example.com/post'']"
proof -
  have agree: "\<forall>c \<in> set (collect_candidates sample_lib mixed_links).
                 other_md5 (str_int 7 @ ''|'' @ url c)
                   = md5_int sample_lib (str_int 7 @ ''|'' @ url c)"
    using ordered_mixed_other by (simp only: list_all_iff)
  from select_links_deterministic[of sample_lib 7 mixed_links other_md5]
  have "(\<forall>c \<in> set (collect_candidates sample_lib mixed_links).
           other_md5 (str_int 7 @ ''|'' @ url c) = md5_int sample_lib (str_int 7 @ ''|'' @ url c))
        \<longrightarrow> select_cluster_links (sample_lib\<lparr>md5_int := other_md5\<rparr>) 7 mixed_links
              = select_cluster_links sample_lib 7 mixed_links"
    by (elim conjE)
  then have same: "select_cluster_links (sample_lib\<lparr>md5_int := other_md5\<rparr>) 7 mixed_links
              = select_cluster_links sample_lib 7 mixed_links"
    using agree by (rule mp)
  have differ: "other_md5 ''1|/feed/launch'' \<noteq> md5_int sample_lib ''1|/feed/launch''"
    by (simp add: other_md5_def sample_lib_def md5_known_def)
  show ?thesis
    using ordered_mixed_other same differ by (simp add: select_mixed)
qed

text \<open>
  C2 as stated fails.  With a single candidate the primary link is the one evidence link.
  With the four site-relative links, whose three distinct domains come from the items, the
  primary link is again the first evidence link, and the evidence links \<open>/feed/launch\<close>
  and \<open>/blog/launch\<close> share the domain \<open>a.example.com\<close>.
\<close>

theorem evidence_links_exclude_primary_counterexample:
  "primary_link (select_cluster_links sample_lib 7 single_official)
     \<in> set (evidence_links (select_cluster_links sample_lib 7 single_official))
   \<and> collect_candidates sample_lib relative_links
       = [\<lparr>url = ''/feed/launch'', domain = ''a.example.com''\<rparr>,
          \<lparr>url = ''/news/launch'', domain = ''c.example.com''\<rparr>,
          \<lparr>url = ''/news/launch'', domain = ''b.example.com''\<rparr>,
          \<lparr>url = ''/blog/launch'', domain = ''a.example.com''\<rparr>]
   \<and> card (domain ` set (collect_candidates sample_lib relative_links)) = 3
   \<and> primary_link (select_cluster_links sample_lib 1 relative_links) = ''/feed/launch''
   \<and> evidence_links (select_cluster_links sample_lib 1 relative_links)
       = [''/feed/launch'', ''/news/launch'', ''/blog/launch'']"
  by (simp add: select_single select_relative cands_relative card_insert_if)

theorem evidence_links_shape_witness:
  "collect_candidates sample_lib mixed_links \<noteq> []
   \<and> card (domain ` set (ordered_candidates sample_lib 7
              (collect_candidates sample_lib mixed_links))) = 4
   \<and> hd (evidence_links (select_cluster_links sample_lib 7 mixed_links))
       = primary_link (select_cluster_links sample_lib 7 mixed_links)
   \<and> evidence_links (select_cluster_links sample_lib 7 mixed_links)
       = [''https://openai.com/blog/gpt-5'', ''https://github.com/acme/agent'',
          ''https://example.com/post'']
   \<and> length (evidence_links (select_cluster_links sample_lib 7 mixed_links)) = 3"
proof -
  have ne: "collect_candidates sample_lib mixed_links \<noteq> []"
    by (simp add: cands_mixed)
  from evidence_links_shape[OF ne, of 7]
  have "hd (evidence_links (select_cluster_links sample_lib 7 mixed_links))
       = primary_link (select_cluster_links sample_lib 7 mixed_links)"
    unfolding Let_def by (elim conjE)
  moreover have "card (domain ` set (ordered_candidates sample_lib 7
              (collect_candidates sample_lib mixed_links))) = 4"
    unfolding ordered_mixed by simp
  ultimately show ?thesis
    using ne by (simp add: select_mixed)
qed

text \<open>
  C9 as stated fails.  For the single official link the exclusion removes nothing, and the
  flag is true; for the empty list the debug output holds no primary domain and no label.
\<close>

theorem debug_flag_counterexample:
  "filtered_arxiv (debug (select_cluster_links sample_lib 7 single_official))
   \<and> non_arxiv_of (collect_candidates sample_lib single_official)
       = collect_candidates sample_lib single_official
   \<and> length (collect_candidates sample_lib single_official) = 1
   \<and> primary_domain (debug (select_cluster_links sample_lib 7 [])) = None
   \<and> primary_priority (debug (select_cluster_links sample_lib 7 [])) = None"
  by (simp add: select_single select_nothing cands_single non_arxiv_of_def)

theorem select_links_debug_witness:
  "debug (select_cluster_links sample_lib 7 mixed_links)
     = \<lparr>candidate_count = 5, filtered_arxiv = True,
        primary_domain = Some ''openai.com'', primary_priority = Some ''official''\<rparr>
   \<and> length (ordered_candidates sample_lib 7 (collect_candidates sample_lib mixed_links)) = 4
   \<and> debug (select_cluster_links sample_lib 7 arxiv_only)
     = \<lparr>candidate_count = 1, filtered_arxiv = False,
        primary_domain = Some ''arxiv.org'', primary_priority = Some ''code_or_paper''\<rparr>
   \<and> candidate_count (debug (select_cluster_links sample_lib 7 mixed_links))
       = length (collect_candidates sample_lib mixed_links)"
proof -
  from select_links_debug[of sample_lib mixed_links 7]
  have "candidate_count (debug (select_cluster_links sample_lib 7 mixed_links))
       = length (collect_candidates sample_lib mixed_links)"
    unfolding Let_def by (elim conjE)
  then show ?thesis
    by (simp add: select_mixed select_arxiv ordered_mixed)
qed


section \<open>Cluster assigner\<close>

lemma pending_ex:
  "select_unclustered_items assign_db (100 * hour) 72
     = [\<lparr>pi_id = 5, pi_title = ''abc'', pi_source = Some ''example.net'',
         pi_published_at = 98 * hour\<rparr>,
        \<lparr>pi_id = 2, pi_title = ''abc'', pi_source = Some ''example.org'',
         pi_published_at = 97 * hour\<rparr>]"
  by (simp add: select_unclustered_items_def assign_db_def it_ts_def it_src_def coalesce_def
      hour_def List.map_filter_simps)

lemma active_ex:
  "select_active_clusters assign_db (100 * hour) 72 = [\<lparr>ac_id = 3, ac_title = ''xyz''\<rparr>]"
  by (simp add: select_active_clusters_def assign_db_def newer_than_def hour_def)

text \<open>The scan returns the first cluster of strictly highest score above the start value.\<close>

lemma best_match_scan_result:
  assumes "best_match_scan L title cs (bm, bs) = (bm', bs')"
  shows "bs \<le> bs'
       \<and> (\<forall>c \<in> set cs. token_set_ratio L title (ac_title c) \<le> bs')
       \<and> ((bm', bs') = (bm, bs)
            \<or> (\<exists>m \<in> set cs. bm' = Some m \<and> token_set_ratio L title (ac_title m) = bs'
                              \<and> bs < bs'))"
  using assms
proof (induction cs arbitrary: bm bs)
  case Nil
  then show ?case by simp
next
  case (Cons c cs)
  let ?s = "token_set_ratio L title (ac_title c)"
  show ?case
  proof (cases "?s > bs")
    case True
    then have "best_match_scan L title cs (Some c, ?s) = (bm', bs')"
      using Cons.prems by (simp add: Let_def)
    from Cons.IH[OF this] True show ?thesis by auto
  next
    case False
    then have "best_match_scan L title cs (bm, bs) = (bm', bs')"
      using Cons.prems by (simp add: Let_def)
    from Cons.IH[OF this] False show ?thesis by auto
  qed
qed

lemma assign_item_match:
  assumes th: "0 < th"
      and reach: "\<exists>c \<in> set active. th \<le> token_set_ratio L (pi_title item) (ac_title c)"
  shows "\<exists>m \<in> set active.
           (\<forall>c \<in> set active. token_set_ratio L (pi_title item) (ac_title c)
                                  \<le> token_set_ratio L (pi_title item) (ac_title m))
           \<and> th \<le> token_set_ratio L (pi_title item) (ac_title m)
           \<and> assign_item L th item (db, active)
               = (touch_cluster (ac_id m) (pi_published_at item)
                    (set_item_cluster (ac_id m) (pi_id item) db), active)"
proof -
  obtain bm' bs' where scan: "best_match_scan L (pi_title item) active (None, 0) = (bm', bs')"
    by (cases "best_match_scan L (pi_title item) active (None, 0)")
  note r = best_match_scan_result[OF scan]
  from reach obtain c where c: "c \<in> set active"
    "th \<le> token_set_ratio L (pi_title item) (ac_title c)" by blast
  have top: "\<forall>c \<in> set active. token_set_ratio L (pi_title item) (ac_title c) \<le> bs'"
    using r by blast
  then have ge: "th \<le> bs'" using c by force
  then have "(bm', bs') \<noteq> (None, 0)" using th by auto
  then obtain m where m: "m \<in> set active" "bm' = Some m"
    "token_set_ratio L (pi_title item) (ac_title m) = bs'"
    using r by blast
  have "assign_item L th item (db, active)
          = (touch_cluster (ac_id m) (pi_published_at item)
               (set_item_cluster (ac_id m) (pi_id item) db), active)"
    using scan m(2) ge by (simp add: assign_item_def Let_def)
  then show ?thesis using m top ge by auto
qed

lemma assign_item_new:
  assumes below: "\<forall>c \<in> set active. token_set_ratio L (pi_title item) (ac_title c) < th"
  shows "assign_item L th item (db, active)
           = (set_item_cluster (clusters_id_seq db) (pi_id item)
                (snd (insert_cluster (pi_title item) (pi_published_at item) db)),
              active @ [\<lparr>ac_id = clusters_id_seq db, ac_title = pi_title item\<rparr>])"
proof -
  obtain bm' bs' where scan: "best_match_scan L (pi_title item) active (None, 0) = (bm', bs')"
    by (cases "best_match_scan L (pi_title item) active (None, 0)")
  note r = best_match_scan_result[OF scan]
  have "\<not> (bm' \<noteq> None \<and> th \<le> bs')"
  proof
    assume h: "bm' \<noteq> None \<and> th \<le> bs'"
    then have "(bm', bs') \<noteq> (None, 0)" by auto
    then obtain m where "m \<in> set active" "token_set_ratio L (pi_title item) (ac_title m) = bs'"
      using r by blast
    then show False using below h by force
  qed
  then show ?thesis
    using scan by (auto simp: assign_item_def Let_def insert_cluster_def)
qed

lemma assign_item_active_grows:
  "set (snd st) \<subseteq> set (snd (assign_item L th item st))"
  by (cases st) (auto simp: assign_item_def Let_def split: prod.splits)

lemma fold_assign_active_grows:
  "set (snd st) \<subseteq> set (snd (fold (assign_item L th) pending st))"
proof (induction pending arbitrary: st)
  case Nil
  then show ?case by simp
next
  case (Cons p ps)
  have "set (snd st) \<subseteq> set (snd (assign_item L th p st))"
    by (rule assign_item_active_grows)
  also have "\<dots> \<subseteq> set (snd (fold (assign_item L th) ps (assign_item L th p st)))"
    by (rule Cons.IH)
  finally show ?case by simp
qed

text \<open>
  C3 (amended).  With a positive threshold, for every item the assigner processes, in
  whatever state of the store and of the list of active clusters: if some active cluster's
  representative title scores at least the threshold, the item is assigned to an active
  cluster of highest score, whose \<open>last_seen_at\<close> becomes the maximum of its value and the
  item's timestamp, and no cluster is added; otherwise a cluster is inserted whose title is
  the item's title and whose \<open>first_seen_at\<close> and \<open>last_seen_at\<close> are the item's timestamp,
  the item is assigned to it, and it joins the active clusters.  The active clusters seen by
  any later item of the pass include those seen now, so the new cluster is matchable.
  \<open>cluster_news\<close> runs this step over the unclustered items of the window, starting from
  the active clusters of the window, before it refreshes the counts.
\<close>

theorem cluster_assigner_step:
  assumes th: "0 < th"
  shows
  "let sim = (\<lambda>c. token_set_ratio L (pi_title item) (ac_title c));
       ts = pi_published_at item;
       (db', active') = assign_item L th item (db, active);
       w = window_hours (Some hours)
   in ((\<exists>c \<in> set active. th \<le> sim c) \<longrightarrow>
         (\<exists>m \<in> set active.
            (\<forall>c \<in> set active. sim c \<le> sim m)
            \<and> items db' = map (\<lambda>i. if it_id i = pi_id item
                                      then i\<lparr>it_cluster_id := Some (ac_id m)\<rparr> else i) (items db)
            \<and> clusters db'
                = map (\<lambda>r. if cl_id r = ac_id m
                            then r\<lparr>cl_last_seen_at :=
                                     Some (case cl_last_seen_at r of None \<Rightarrow> ts
                                           | Some t \<Rightarrow> max t ts)\<rparr>
                            else r) (clusters db)
            \<and> active' = active))
      \<and> ((\<forall>c \<in> set active. sim c < th) \<longrightarrow>
           clusters db'
             = clusters db @
               [\<lparr>cl_id = clusters_id_seq db, cl_title = pi_title item,
                 cl_first_seen_at = Some ts, cl_last_seen_at = Some ts, cl_score = 0,
                 cl_kind = ''news'', cl_item_count = None, cl_meta = None\<rparr>]
           \<and> items db' = map (\<lambda>i. if it_id i = pi_id item
                                     then i\<lparr>it_cluster_id := Some (clusters_id_seq db)\<rparr>
                                     else i) (items db)
           \<and> active' = active @ [\<lparr>ac_id = clusters_id_seq db, ac_title = pi_title item\<rparr>])
      \<and> (\<forall>later. set active'
                     \<subseteq> set (snd (fold (assign_item L th) later (db', active'))))
      \<and> cluster_news L now hours th sdb
          = refresh_clusters now w
              (fst (fold (assign_item L th) (select_unclustered_items sdb now w)
                      (sdb, select_active_clusters sdb now w)))"
proof -
  let ?sim = "\<lambda>c. token_set_ratio L (pi_title item) (ac_title c)"
  let ?ts = "pi_published_at item"
  let ?w = "window_hours (Some hours)"
  obtain db' active' where res: "assign_item L th item (db, active) = (db', active')"
    by (cases "assign_item L th item (db, active)")
  have a: "(\<exists>c \<in> set active. th \<le> ?sim c) \<longrightarrow>
         (\<exists>m \<in> set active.
            (\<forall>c \<in> set active. ?sim c \<le> ?sim m)
            \<and> items db' = map (\<lambda>i. if it_id i = pi_id item
                                      then i\<lparr>it_cluster_id := Some (ac_id m)\<rparr> else i) (items db)
            \<and> clusters db'
                = map (\<lambda>r. if cl_id r = ac_id m
                            then r\<lparr>cl_last_seen_at :=
                                     Some (case cl_last_seen_at r of None \<Rightarrow> ?ts
                                           | Some t \<Rightarrow> max t ?ts)\<rparr>
                            else r) (clusters db)
            \<and> active' = active)"
  proof
    assume "\<exists>c \<in> set active. th \<le> ?sim c"
    from assign_item_match[OF th this, of db]
    obtain m where m: "m \<in> set active" "\<forall>c \<in> set active. ?sim c \<le> ?sim m"
      "assign_item L th item (db, active)
               = (touch_cluster (ac_id m) ?ts (set_item_cluster (ac_id m) (pi_id item) db), active)"
      by blast
    from m(3) res have db': "db' = touch_cluster (ac_id m) ?ts
                                    (set_item_cluster (ac_id m) (pi_id item) db)"
      and act: "active' = active" by simp_all
    have i: "items db' = map (\<lambda>i. if it_id i = pi_id item
                                      then i\<lparr>it_cluster_id := Some (ac_id m)\<rparr> else i) (items db)"
      by (simp add: db' touch_cluster_def set_item_cluster_def)
    have c: "clusters db'
                = map (\<lambda>r. if cl_id r = ac_id m
                            then r\<lparr>cl_last_seen_at :=
                                     Some (case cl_last_seen_at r of None \<Rightarrow> ?ts
                                           | Some t \<Rightarrow> max t ?ts)\<rparr>
                            else r) (clusters db)"
      by (simp add: db' touch_cluster_def set_item_cluster_def greatest_def)
    from m(1,2) i c act
    show "\<exists>m \<in> set active.
            (\<forall>c \<in> set active. ?sim c \<le> ?sim m)
            \<and> items db' = map (\<lambda>i. if it_id i = pi_id item
                                      then i\<lparr>it_cluster_id := Some (ac_id m)\<rparr> else i) (items db)
            \<and> clusters db'
                = map (\<lambda>r. if cl_id r = ac_id m
                            then r\<lparr>cl_last_seen_at :=
                                     Some (case cl_last_seen_at r of None \<Rightarrow> ?ts
                                           | Some t \<Rightarrow> max t ?ts)\<rparr>
                            else r) (clusters db)
            \<and> active' = active"
      by blast
  qed
  have b: "(\<forall>c \<in> set active. ?sim c < th) \<longrightarrow>
           clusters db'
             = clusters db @
               [\<lparr>cl_id = clusters_id_seq db, cl_title = pi_title item,
                 cl_first_seen_at = Some ?ts, cl_last_seen_at = Some ?ts, cl_score = 0,
                 cl_kind = ''news'', cl_item_count = None, cl_meta = None\<rparr>]
           \<and> items db' = map (\<lambda>i. if it_id i = pi_id item
                                     then i\<lparr>it_cluster_id := Some (clusters_id_seq db)\<rparr>
                                     else i) (items db)
           \<and> active' = active @ [\<lparr>ac_id = clusters_id_seq db, ac_title = pi_title item\<rparr>]"
  proof
    assume "\<forall>c \<in> set active. ?sim c < th"
    from assign_item_new[OF this, of db] res
    have db': "db' = set_item_cluster (clusters_id_seq db) (pi_id item)
                       (snd (insert_cluster (pi_title item) ?ts db))"
      and act: "active' = active @ [\<lparr>ac_id = clusters_id_seq db, ac_title = pi_title item\<rparr>]"
      by simp_all
    show "clusters db'
             = clusters db @
               [\<lparr>cl_id = clusters_id_seq db, cl_title = pi_title item,
                 cl_first_seen_at = Some ?ts, cl_last_seen_at = Some ?ts, cl_score = 0,
                 cl_kind = ''news'', cl_item_count = None, cl_meta = None\<rparr>]
           \<and> items db' = map (\<lambda>i. if it_id i = pi_id item
                                     then i\<lparr>it_cluster_id := Some (clusters_id_seq db)\<rparr>
                                     else i) (items db)
           \<and> active' = active @ [\<lparr>ac_id = clusters_id_seq db, ac_title = pi_title item\<rparr>]"
      using act by (simp add: db' set_item_cluster_def insert_cluster_def Let_def)
  qed
  have c: "\<forall>later. set active' \<subseteq> set (snd (fold (assign_item L th) later (db', active')))"
    using fold_assign_active_grows[of "(db', active')" L th] by simp
  have d: "cluster_news L now hours th sdb
          = refresh_clusters now ?w
              (fst (fold (assign_item L th) (select_unclustered_items sdb now ?w)
                      (sdb, select_active_clusters sdb now ?w)))"
    by (simp add: cluster_news_def Let_def split: prod.splits)
  show ?thesis
    unfolding Let_def res prod.case using a b c d by (intro conjI)
qed

lemmas assign_simps = assign_item_def Let_def sample_lib_def ratio_known_def touch_cluster_def
  set_item_cluster_def insert_cluster_def greatest_def

lemma assign_run:
  "th = 70 \<or> th = 0 \<Longrightarrow>
   fold (assign_item sample_lib th)
     [\<lparr>pi_id = 5, pi_title = ''abc'', pi_source = Some ''example.net'',
       pi_published_at = 98 * hour\<rparr>,
      \<lparr>pi_id = 2, pi_title = ''abc'', pi_source = Some ''example.org'',
       pi_published_at = 97 * hour\<rparr>]
     (assign_db, [\<lparr>ac_id = 3, ac_title = ''xyz''\<rparr>])
   = (assign_db
        \<lparr>clusters :=
           [\<lparr>cl_id = 3, cl_title = ''xyz'',
              cl_first_seen_at = Some (90 * hour), cl_last_seen_at = Some (95 * hour),
              cl_score = 0, cl_kind = ''news'', cl_item_count = Some 1, cl_meta = None\<rparr>,
            \<lparr>cl_id = 4, cl_title = ''abc'',
              cl_first_seen_at = Some (98 * hour), cl_last_seen_at = Some (98 * hour),
              cl_score = 0, cl_kind = ''news'', cl_item_count = None, cl_meta = None\<rparr>],
         clusters_id_seq := 5,
         items := map (\<lambda>i. if it_id i = 1 then i else i\<lparr>it_cluster_id := Some 4\<rparr>)
                    (items assign_db)\<rparr>,
      [\<lparr>ac_id = 3, ac_title = ''xyz''\<rparr>, \<lparr>ac_id = 4, ac_title = ''abc''\<rparr>])"
  by (auto simp: assign_simps assign_db_def hour_def)

lemma news_run:
  assumes "th = 70 \<or> th = 0"
  shows "map it_cluster_id (items (cluster_news sample_lib (100 * hour) 72 th assign_db))
           = [Some 3, Some 4, Some 4]"
    and "map (\<lambda>r. (cl_id r, cl_title r, cl_first_seen_at r, cl_last_seen_at r, cl_item_count r))
           (clusters (cluster_news sample_lib (100 * hour) 72 th assign_db))
           = [(3, ''xyz'', Some (90 * hour), Some (95 * hour), Some 1),
              (4, ''abc'', Some (98 * hour), Some (98 * hour), Some 2)]"
proof -
  have w: "window_hours (Some 72) = 72" by (simp add: window_hours_def)
  have news: "cluster_news sample_lib (100 * hour) 72 th assign_db
          = refresh_clusters (100 * hour) 72
              (fst (fold (assign_item sample_lib th)
                      (select_unclustered_items assign_db (100 * hour) 72)
                      (assign_db, select_active_clusters assign_db (100 * hour) 72)))"
    by (simp add: cluster_news_def Let_def w split: prod.splits)
  show "map it_cluster_id (items (cluster_news sample_lib (100 * hour) 72 th assign_db))
           = [Some 3, Some 4, Some 4]"
    unfolding news pending_ex active_ex assign_run[OF assms]
    by (simp add: refresh_clusters_def assign_db_def)
  show "map (\<lambda>r. (cl_id r, cl_title r, cl_first_seen_at r, cl_last_seen_at r, cl_item_count r))
           (clusters (cluster_news sample_lib (100 * hour) 72 th assign_db))
           = [(3, ''xyz'', Some (90 * hour), Some (95 * hour), Some 1),
              (4, ''abc'', Some (98 * hour), Some (98 * hour), Some 2)]"
    unfolding news pending_ex active_ex assign_run[OF assms]
    by (simp add: refresh_clusters_def assign_db_def newer_than_def max_ts_def it_ts_def
        coalesce_def greatest_def hour_def)
qed

theorem cluster_assigner_step_witness:
  "(0::real) < 70
   \<and> select_active_clusters assign_db (100 * hour) 72 = [\<lparr>ac_id = 3, ac_title = ''xyz''\<rparr>]
   \<and> map pi_id (select_unclustered_items assign_db (100 * hour) 72) = [5, 2]
   \<and> map it_cluster_id (items (cluster_news sample_lib (100 * hour) 72 70 assign_db))
       = [Some 3, Some 4, Some 4]
   \<and> map (\<lambda>r. (cl_id r, cl_title r, cl_first_seen_at r, cl_last_seen_at r, cl_item_count r))
         (clusters (cluster_news sample_lib (100 * hour) 72 70 assign_db))
       = [(3, ''xyz'', Some (90 * hour), Some (95 * hour), Some 1),
          (4, ''abc'', Some (98 * hour), Some (98 * hour), Some 2)]"
proof -
  have pos: "(0::real) < 70" by simp
  have w: "window_hours (Some 72) = 72" by (simp add: window_hours_def)
  let ?item = "\<lparr>pi_id = 5, pi_title = ''abc'', pi_source = Some ''example.net'',
                 pi_published_at = 98 * hour\<rparr>"
  obtain db' active' where
    res: "assign_item sample_lib 70 ?item (assign_db, []) = (db', active')"
    by (cases "assign_item sample_lib 70 ?item (assign_db, [])")
  from cluster_assigner_step[OF pos, where L = sample_lib and item = ?item and db = assign_db
        and active = "[]" and now = "100 * hour" and hours = 72 and sdb = assign_db]
  have news: "cluster_news sample_lib (100 * hour) 72 70 assign_db
          = refresh_clusters (100 * hour) 72
              (fst (fold (assign_item sample_lib 70)
                      (select_unclustered_items assign_db (100 * hour) 72)
                      (assign_db, select_active_clusters assign_db (100 * hour) 72)))"
    unfolding Let_def res prod.case w by (elim conjE)
  have run: "fold (assign_item sample_lib 70)
               (select_unclustered_items assign_db (100 * hour) 72)
               (assign_db, select_active_clusters assign_db (100 * hour) 72)
             = (assign_db
        \<lparr>clusters :=
           [\<lparr>cl_id = 3, cl_title = ''xyz'',
              cl_first_seen_at = Some (90 * hour), cl_last_seen_at = Some (95 * hour),
              cl_score = 0, cl_kind = ''news'', cl_item_count = Some 1, cl_meta = None\<rparr>,
            \<lparr>cl_id = 4, cl_title = ''abc'',
              cl_first_seen_at = Some (98 * hour), cl_last_seen_at = Some (98 * hour),
              cl_score = 0, cl_kind = ''news'', cl_item_count = None, cl_meta = None\<rparr>],
         clusters_id_seq := 5,
         items := map (\<lambda>i. if it_id i = 1 then i else i\<lparr>it_cluster_id := Some 4\<rparr>)
                    (items assign_db)\<rparr>,
      [\<lparr>ac_id = 3, ac_title = ''xyz''\<rparr>, \<lparr>ac_id = 4, ac_title = ''abc''\<rparr>])"
    unfolding pending_ex active_ex by (rule assign_run) simp
  have a: "map it_cluster_id (items (cluster_news sample_lib (100 * hour) 72 70 assign_db))
       = [Some 3, Some 4, Some 4]"
    unfolding news run by (simp add: refresh_clusters_def assign_db_def)
  have b: "map (\<lambda>r. (cl_id r, cl_title r, cl_first_seen_at r, cl_last_seen_at r, cl_item_count r))
         (clusters (cluster_news sample_lib (100 * hour) 72 70 assign_db))
       = [(3, ''xyz'', Some (90 * hour), Some (95 * hour), Some 1),
          (4, ''abc'', Some (98 * hour), Some (98 * hour), Some 2)]"
    unfolding news run
    by (simp add: refresh_clusters_def assign_db_def newer_than_def max_ts_def it_ts_def
        coalesce_def greatest_def hour_def)
  show ?thesis
    using a b by (simp add: active_ex pending_ex)
qed

text \<open>
  C3 as stated fails for the threshold 0: the one active cluster scores 0, which is at least
  the threshold, and yet the item is not assigned to it but to a new cluster.
\<close>

theorem cluster_assigner_zero_threshold_counterexample:
  "select_active_clusters assign_db (100 * hour) 72 = [\<lparr>ac_id = 3, ac_title = ''xyz''\<rparr>]
   \<and> (0::real) \<le> token_set_ratio sample_lib ''abc'' ''xyz''
   \<and> snd (assign_item sample_lib 0
            \<lparr>pi_id = 5, pi_title = ''abc'', pi_source = Some ''example.net'',
              pi_published_at = 98 * hour\<rparr>
            (assign_db, [\<lparr>ac_id = 3, ac_title = ''xyz''\<rparr>]))
       = [\<lparr>ac_id = 3, ac_title = ''xyz''\<rparr>, \<lparr>ac_id = 4, ac_title = ''abc''\<rparr>]
   \<and> map it_cluster_id (items (cluster_news sample_lib (100 * hour) 72 0 assign_db))
       = [Some 3, Some 4, Some 4]
   \<and> map cl_id (clusters (cluster_news sample_lib (100 * hour) 72 0 assign_db)) = [3, 4]"
proof -
  have a: "(0::real) \<le> token_set_ratio sample_lib ''abc'' ''xyz''"
    by (simp add: sample_lib_def ratio_known_def)
  have b: "snd (assign_item sample_lib 0
            \<lparr>pi_id = 5, pi_title = ''abc'', pi_source = Some ''example.net'',
              pi_published_at = 98 * hour\<rparr>
            (assign_db, [\<lparr>ac_id = 3, ac_title = ''xyz''\<rparr>]))
       = [\<lparr>ac_id = 3, ac_title = ''xyz''\<rparr>, \<lparr>ac_id = 4, ac_title = ''abc''\<rparr>]"
    by (simp add: assign_simps assign_db_def)
  have c: "map cl_id (clusters (cluster_news sample_lib (100 * hour) 72 0 assign_db)) = [3, 4]"
  proof -
    have "map fst (map (\<lambda>r. (cl_id r, cl_title r, cl_first_seen_at r, cl_last_seen_at r,
                                 cl_item_count r))
            (clusters (cluster_news sample_lib (100 * hour) 72 0 assign_db)))
          = map fst [(3::int, ''xyz'', Some (90 * hour), Some (95 * hour), Some (1::int)),
                     (4, ''abc'', Some (98 * hour), Some (98 * hour), Some 2)]"
      by (rule arg_cong[where f = "map fst"]) (rule news_run(2), simp)
    then show ?thesis by (simp add: comp_def)
  qed
  show ?thesis
    using a b c news_run(1)[of 0] by (simp add: active_ex)
qed

end
